theory Spec2Isabelle
  imports Complex_Main
begin

section \<open>Numbers of the source language\<close>

text \<open>
  The colour library computes on JavaScript numbers.  They are modelled as real numbers:
  every operation is the exact one, so rounding to the nearest double and overflow are
  not part of the model.  The three degenerate-value functions of
  \<^verbatim>\<open>colorConversions.ts\<close> that produce or test \<^verbatim>\<open>NaN\<close> are modelled further
  down on a number type of their own that has \<^verbatim>\<open>NaN\<close> and the two infinities, and on
  which a result too large for a double overflows to an infinity.
\<close>

text \<open>\<^verbatim>\<open>Math.trunc\<close>: the integer part, towards zero.\<close>

definition trunc :: "real \<Rightarrow> int" where
  "trunc x = (if 0 \<le> x then \<lfloor>x\<rfloor> else - \<lfloor>- x\<rfloor>)"

text \<open>
  The remainder operator \<^verbatim>\<open>a % b\<close> on numbers: \<open>a - b * trunc (a / b)\<close>, whose sign is
  the sign of the dividend.  Every divisor in the code modelled here is one of the literals
  \<^verbatim>\<open>360\<close>, \<^verbatim>\<open>6\<close> and \<^verbatim>\<open>2\<close>, so the case \<open>b = 0\<close> (\<^verbatim>\<open>NaN\<close> in the source) never occurs.
\<close>

definition jsrem :: "real \<Rightarrow> real \<Rightarrow> real" where
  "jsrem a b = a - b * of_int (trunc (a / b))"

text \<open>\<^verbatim>\<open>Math.round\<close>: the nearest integer, a tie going up.\<close>

definition Math_round :: "real \<Rightarrow> int" where
  "Math_round x = \<lfloor>x + 1 / 2\<rfloor>"

subsection \<open>\<^verbatim>\<open>utils/colorMath.ts\<close>\<close>

definition clamp01 :: "real \<Rightarrow> real" where
  "clamp01 v = min 1 (max 0 v)"

definition degNorm :: "real \<Rightarrow> real" where
  "degNorm d = jsrem (jsrem d 360 + 360) 360"

definition lerp :: "real \<Rightarrow> real \<Rightarrow> real \<Rightarrow> real" where
  "lerp a b t = a + (b - a) * t"

section \<open>Colour space conversions (\<^verbatim>\<open>utils/colorConversions.ts\<close>)\<close>

text \<open>
  The interfaces of \<^verbatim>\<open>types\<close>.  A field keeps its name behind the name of its interface,
  since a field \<open>r\<close> or \<open>a\<close> would be a constant of that name.
\<close>

record RGB =
  rgb_r :: real
  rgb_g :: real
  rgb_b :: real

record HSL =
  hsl_h :: real
  hsl_s :: real
  hsl_l :: real

record HSV =
  hsv_h :: real
  hsv_s :: real
  hsv_v :: real

record CMYK =
  cmyk_c :: real
  cmyk_m :: real
  cmyk_y :: real
  cmyk_k :: real

record LinearRGB =
  lin_r :: real
  lin_g :: real
  lin_b :: real

definition hslToRgb :: "real \<Rightarrow> real \<Rightarrow> real \<Rightarrow> RGB" where
  "hslToRgb h s l =
     (let C = (1 - \<bar>2 * l - 1\<bar>) * s;
          hh = jsrem h 360 / 60;
          X = C * (1 - \<bar>jsrem hh 2 - 1\<bar>);
          (r1, g1, b1) =
            (if 0 \<le> hh \<and> hh < 1 then (C, X, 0)
             else if 1 \<le> hh \<and> hh < 2 then (X, C, 0)
             else if 2 \<le> hh \<and> hh < 3 then (0, C, X)
             else if 3 \<le> hh \<and> hh < 4 then (0, X, C)
             else if 4 \<le> hh \<and> hh < 5 then (X, 0, C)
             else (C, 0, X));
          m = l - C / 2;
          r = Math_round ((r1 + m) * 255);
          g = Math_round ((g1 + m) * 255);
          b = Math_round ((b1 + m) * 255)
      in \<lparr>rgb_r = of_int (min 255 (max 0 r)),
          rgb_g = of_int (min 255 (max 0 g)),
          rgb_b = of_int (min 255 (max 0 b))\<rparr>)"

text \<open>
  The three channels of \<open>hslToRgb\<close> before they are scaled and rounded: the same steps, up
  to the offset \<open>m\<close>.
\<close>

definition hslChannels :: "real \<Rightarrow> real \<Rightarrow> real \<Rightarrow> real \<times> real \<times> real" where
  "hslChannels h s l =
     (let C = (1 - \<bar>2 * l - 1\<bar>) * s;
          hh = jsrem h 360 / 60;
          X = C * (1 - \<bar>jsrem hh 2 - 1\<bar>);
          (r1, g1, b1) =
            (if 0 \<le> hh \<and> hh < 1 then (C, X, 0)
             else if 1 \<le> hh \<and> hh < 2 then (X, C, 0)
             else if 2 \<le> hh \<and> hh < 3 then (0, C, X)
             else if 3 \<le> hh \<and> hh < 4 then (0, X, C)
             else if 4 \<le> hh \<and> hh < 5 then (X, 0, C)
             else (C, 0, X));
          m = l - C / 2
      in (r1 + m, g1 + m, b1 + m))"

definition rgbToHsl :: "real \<Rightarrow> real \<Rightarrow> real \<Rightarrow> HSL" where
  "rgbToHsl r0 g0 b0 =
     (let r = r0 / 255; g = g0 / 255; b = b0 / 255;
          mx = max r (max g b);
          mn = min r (min g b);
          d = mx - mn;
          h = (if d \<noteq> 0 then
                 (let h1 = (if mx = r then jsrem ((g - b) / d) 6
                            else if mx = g then (b - r) / d + 2
                            else (r - g) / d + 4);
                      h2 = h1 * 60
                  in if h2 < 0 then h2 + 360 else h2)
               else 0);
          l = (mx + mn) / 2;
          s = (if d = 0 then 0 else d / (1 - \<bar>2 * l - 1\<bar>))
      in \<lparr>hsl_h = h, hsl_s = s, hsl_l = l\<rparr>)"

definition rgbToHsv :: "real \<Rightarrow> real \<Rightarrow> real \<Rightarrow> HSV" where
  "rgbToHsv r0 g0 b0 =
     (let r = r0 / 255; g = g0 / 255; b = b0 / 255;
          mx = max r (max g b);
          mn = min r (min g b);
          d = mx - mn;
          h = (if d \<noteq> 0 then
                 (let h1 = (if mx = r then jsrem ((g - b) / d) 6
                            else if mx = g then (b - r) / d + 2
                            else (r - g) / d + 4);
                      h2 = h1 * 60
                  in if h2 < 0 then h2 + 360 else h2)
               else 0);
          v = mx;
          s = (if mx = 0 then 0 else d / mx)
      in \<lparr>hsv_h = h, hsv_s = s, hsv_v = v\<rparr>)"

text \<open>
  The round trips of section 8 of the specification, from RGB to the three components of a
  space and back.  \<open>toComponents\<close> is the function of the library from RGB to the space;
  \<open>toRgb\<close> is its function from the components of the space to RGB, which is \<open>hslToRgb\<close> for
  HSL.  The library has no function from HSV to RGB: of its functions only \<open>hslToRgb\<close> and
  \<open>mixLinearRGB\<close> return an RGB.
\<close>

datatype TripleSpace = HSL_space | HSV_space

fun toComponents :: "TripleSpace \<Rightarrow> RGB \<Rightarrow> real \<times> real \<times> real" where
  "toComponents HSL_space c =
     (let hsl = rgbToHsl (rgb_r c) (rgb_g c) (rgb_b c) in (hsl_h hsl, hsl_s hsl, hsl_l hsl))"
| "toComponents HSV_space c =
     (let hsv = rgbToHsv (rgb_r c) (rgb_g c) (rgb_b c) in (hsv_h hsv, hsv_s hsv, hsv_v hsv))"

fun toRgb :: "TripleSpace \<Rightarrow> (real \<Rightarrow> real \<Rightarrow> real \<Rightarrow> RGB) option" where
  "toRgb HSL_space = Some hslToRgb"
| "toRgb HSV_space = None"

definition roundTrip :: "TripleSpace \<Rightarrow> RGB \<Rightarrow> RGB option" where
  "roundTrip sp c =
     (case toRgb sp of
        None \<Rightarrow> None
      | Some back \<Rightarrow> (case toComponents sp c of (x, y, z) \<Rightarrow> Some (back x y z)))"

text \<open>A colour reproduces another within one unit per channel.\<close>

definition within1 :: "RGB \<Rightarrow> RGB \<Rightarrow> bool" where
  "within1 c c' \<longleftrightarrow>
     \<bar>rgb_r c' - rgb_r c\<bar> \<le> 1 \<and> \<bar>rgb_g c' - rgb_g c\<bar> \<le> 1 \<and> \<bar>rgb_b c' - rgb_b c\<bar> \<le> 1"

definition reproduces_spec :: "TripleSpace \<Rightarrow> RGB \<Rightarrow> bool" where
  "reproduces_spec sp c =
     (case roundTrip sp c of None \<Rightarrow> False | Some c' \<Rightarrow> within1 c c')"

definition rgbToCmyk :: "real \<Rightarrow> real \<Rightarrow> real \<Rightarrow> CMYK" where
  "rgbToCmyk r g b =
     (let rr = r / 255; gg = g / 255; bb = b / 255;
          k = 1 - max rr (max gg bb)
      in if k \<ge> 1 - 1 / 10 ^ 12 then \<lparr>cmyk_c = 0, cmyk_m = 0, cmyk_y = 0, cmyk_k = 1\<rparr>
         else
           (let c = (1 - rr - k) / (1 - k);
                m = (1 - gg - k) / (1 - k);
                y = (1 - bb - k) / (1 - k)
            in \<lparr>cmyk_c = clamp01 c, cmyk_m = clamp01 m, cmyk_y = clamp01 y,
                cmyk_k = clamp01 k\<rparr>))"

text \<open>
  \<^verbatim>\<open>Math.pow(x, y)\<close> is \<open>x powr y\<close> for \<open>x \<ge> 0\<close> and \<open>y > 0\<close>; the two transfer functions and
  the radial profile below raise only such numbers.
\<close>

definition srgbToLinear :: "real \<Rightarrow> real" where
  "srgbToLinear u8 =
     (let u = u8 / 255
      in if u \<le> 0.04045 then u / 12.92 else ((u + 0.055) / 1.055) powr 2.4)"

definition linearToSrgb :: "real \<Rightarrow> real" where
  "linearToSrgb L =
     (let u = (if L \<le> 0.0031308 then 12.92 * L else 1.055 * L powr (1 / 2.4) - 0.055)
      in of_int (Math_round (clamp01 u * 255)))"

definition rgbToLinearRgb :: "real \<Rightarrow> real \<Rightarrow> real \<Rightarrow> LinearRGB" where
  "rgbToLinearRgb r g b = \<lparr>lin_r = srgbToLinear r, lin_g = srgbToLinear g, lin_b = srgbToLinear b\<rparr>"

definition mixLinearRGB :: "RGB \<Rightarrow> RGB \<Rightarrow> real \<Rightarrow> RGB" where
  "mixLinearRGB a b t =
     (let lerp' = (\<lambda>x y. x + (y - x) * t);
          la = rgbToLinearRgb (rgb_r a) (rgb_g a) (rgb_b a);
          lb = rgbToLinearRgb (rgb_r b) (rgb_g b) (rgb_b b);
          lr = lerp' (lin_r la) (lin_r lb);
          lg = lerp' (lin_g la) (lin_g lb);
          lbVal = lerp' (lin_b la) (lin_b lb)
      in \<lparr>rgb_r = linearToSrgb lr, rgb_g = linearToSrgb lg, rgb_b = linearToSrgb lbVal\<rparr>)"

text \<open>The naive mix the specification warns against: the average of the encoded channels.\<close>

definition mixNaive_spec :: "RGB \<Rightarrow> RGB \<Rightarrow> real \<Rightarrow> RGB" where
  "mixNaive_spec a b t =
     \<lparr>rgb_r = of_int (Math_round (lerp (rgb_r a) (rgb_r b) t)),
      rgb_g = of_int (Math_round (lerp (rgb_g a) (rgb_g b) t)),
      rgb_b = of_int (Math_round (lerp (rgb_b a) (rgb_b b) t))\<rparr>"

text \<open>
  An integer channel in \<open>[0, 255]\<close>, and a colour all of whose channels are such: what the
  canvas holds and what \<open>hslToRgb\<close> and \<open>linearToSrgb\<close> return.
\<close>

definition is_byte :: "real \<Rightarrow> bool" where
  "is_byte x \<longleftrightarrow> 0 \<le> x \<and> x \<le> 255 \<and> of_int \<lfloor>x\<rfloor> = x"

definition byteRGB :: "RGB \<Rightarrow> bool" where
  "byteRGB c \<longleftrightarrow> is_byte (rgb_r c) \<and> is_byte (rgb_g c) \<and> is_byte (rgb_b c)"

text \<open>The key of \<open>rgbToCmyk\<close> in the words of the specification: \<open>k = 1 - max(r, g, b) / 255\<close>.\<close>

definition cmyk_key_spec :: "real \<Rightarrow> real \<Rightarrow> real \<Rightarrow> real" where
  "cmyk_key_spec r g b = 1 - max r (max g b) / 255"

text \<open>The two fixed colours of the tint and shade ladder (\<^verbatim>\<open>hooks/useColorWheel.ts\<close>).\<close>

definition white :: RGB where
  "white = \<lparr>rgb_r = 255, rgb_g = 255, rgb_b = 255\<rparr>"

definition black :: RGB where
  "black = \<lparr>rgb_r = 0, rgb_g = 0, rgb_b = 0\<rparr>"

section \<open>Numbers as strings\<close>

text \<open>
  \<^verbatim>\<open>Number.prototype.toString(radix)\<close> on an integer, for the two radices the code uses:
  the digits of the absolute value, most significant first, after a minus sign when the
  number is negative.
\<close>

definition digitChar :: "nat \<Rightarrow> char" where
  "digitChar n = ''0123456789abcdef'' ! n"

fun hexDigits :: "nat \<Rightarrow> string" where
  "hexDigits n = (if n < 16 then [digitChar n] else hexDigits (n div 16) @ [digitChar (n mod 16)])"

fun decDigits :: "nat \<Rightarrow> string" where
  "decDigits n = (if n < 10 then [digitChar n] else decDigits (n div 10) @ [digitChar (n mod 10)])"

definition toString16 :: "int \<Rightarrow> string" where
  "toString16 n = (if n < 0 then CHR ''-'' # hexDigits (nat (- n)) else hexDigits (nat n))"

definition toString10 :: "int \<Rightarrow> string" where
  "toString10 n = (if n < 0 then CHR ''-'' # decDigits (nat (- n)) else decDigits (nat n))"

text \<open>\<^verbatim>\<open>s.padStart(2, '0')\<close>.\<close>

definition padStart2 :: "string \<Rightarrow> string" where
  "padStart2 s = replicate (2 - length s) CHR ''0'' @ s"

text \<open>
  \<^verbatim>\<open>x.toFixed(0)\<close>: the nearest integer in decimal, a tie going away from zero, the sign
  first.
\<close>

definition toFixed0 :: "real \<Rightarrow> string" where
  "toFixed0 x = (if x < 0 then CHR ''-'' # decDigits (nat (Math_round (- x)))
                 else decDigits (nat (Math_round x)))"

text \<open>
  \<^verbatim>\<open>s.toLowerCase()\<close> on the ASCII letters; the strings it is applied to are the hex
  strings of swatches.
\<close>

definition toLowerChar :: "char \<Rightarrow> char" where
  "toLowerChar c =
     (let n = (of_char c :: nat) in if 65 \<le> n \<and> n \<le> 90 then char_of (n + 32) else c)"

definition toLowerCase :: "string \<Rightarrow> string" where
  "toLowerCase s = map toLowerChar s"

text \<open>\<^verbatim>\<open>rgbToHex\<close> of \<^verbatim>\<open>utils/colorMath.ts\<close>.\<close>

definition rgbToHex :: "real \<Rightarrow> real \<Rightarrow> real \<Rightarrow> string" where
  "rgbToHex r g b =
     CHR ''#'' # concat (map (\<lambda>n. padStart2 (toString16 (Math_round n))) [r, g, b])"

section \<open>Wheel geometry (\<^verbatim>\<open>constants/wheelModel.ts\<close>, \<^verbatim>\<open>lib/wheelRenderer.ts\<close>)\<close>

definition OFF_SIZE :: real where
  "OFF_SIZE = 1600"

text \<open>The fields \<open>cx\<close>, \<open>cy\<close>, \<open>R_color\<close> and \<open>R_inner\<close> of \<open>MODEL\<close>.\<close>

definition MODEL_cx :: real where
  "MODEL_cx = OFF_SIZE / 2"

definition MODEL_cy :: real where
  "MODEL_cy = OFF_SIZE / 2"

definition MODEL_R_color :: real where
  "MODEL_R_color = OFF_SIZE * 0.44"

definition MODEL_R_inner :: real where
  "MODEL_R_inner = OFF_SIZE * 0.18"

text \<open>
  \<^verbatim>\<open>Math.atan2(y, x)\<close>, the angle of the point \<open>(x, y)\<close> in \<open>(-\<pi>, \<pi>]\<close>.  A zero is taken as
  the positive zero.
\<close>

definition Math_atan2 :: "real \<Rightarrow> real \<Rightarrow> real" where
  "Math_atan2 y x =
     (if 0 < x then arctan (y / x)
      else if x < 0 then (if 0 \<le> y then arctan (y / x) + pi else arctan (y / x) - pi)
      else if 0 < y then pi / 2
      else if y < 0 then - (pi / 2)
      else 0)"

text \<open>
  At the centre itself both offsets are zero and the second argument \<^verbatim>\<open>-dy\<close> of the source
  is the negative zero, for which \<^verbatim>\<open>Math.atan2(0, -0)\<close> is \<open>\<pi>\<close>; everywhere else the sign of
  a zero does not matter to the call.
\<close>

definition thetaDegFromXY :: "real \<Rightarrow> real \<Rightarrow> real" where
  "thetaDegFromXY x y =
     (let dx = x - MODEL_cx;
          dy = y - MODEL_cy;
          rad = (if dx = 0 \<and> dy = 0 then pi else Math_atan2 dx (- dy))
      in jsrem (rad * 180 / pi + 360) 360)"

definition radiusFromXY :: "real \<Rightarrow> real \<Rightarrow> real" where
  "radiusFromXY x y =
     (let dx = x - MODEL_cx;
          dy = y - MODEL_cy
      in sqrt (dx * dx + dy * dy))"

definition isInsideWheel :: "real \<Rightarrow> real \<Rightarrow> bool" where
  "isInsideWheel x y =
     (let r = radiusFromXY x y in r \<le> MODEL_R_color \<and> r \<ge> MODEL_R_inner)"

text \<open>
  The interface \<^verbatim>\<open>WheelColor extends RGB { theta; r; f }\<close>.  Its field \<^verbatim>\<open>r\<close> is the one of
  \<^verbatim>\<open>RGB\<close>: the object returned is \<^verbatim>\<open>{ theta, r, f, ...rgb }\<close>, where the spread of
  \<^verbatim>\<open>rgb\<close> comes last and puts the red channel in \<^verbatim>\<open>r\<close>, over the radius.
\<close>

record WheelColor = RGB +
  wc_theta :: real
  wc_f :: real

text \<open>\<open>None\<close> is the \<^verbatim>\<open>null\<close> of the source.\<close>

definition wheelColorAt :: "real \<Rightarrow> real \<Rightarrow> WheelColor option" where
  "wheelColorAt x y =
     (let r = radiusFromXY x y
      in if r > MODEL_R_color \<or> r < MODEL_R_inner then None
         else
           (let f = clamp01 ((r - MODEL_R_inner) / (MODEL_R_color - MODEL_R_inner));
                theta = thetaDegFromXY x y;
                s = clamp01 (f powr 1.25);
                l = clamp01 (0.92 - 0.42 * f powr 0.85);
                outerBoost = (if f > 0.84 then (f - 0.84) / (1 - 0.84) else 0);
                s2 = clamp01 (s + 0.22 * outerBoost);
                l2 = clamp01 (l - 0.06 * outerBoost);
                rgb = hslToRgb theta s2 l2
            in Some \<lparr>rgb_r = rgb_r rgb, rgb_g = rgb_g rgb, rgb_b = rgb_b rgb,
                     wc_theta = theta, wc_f = f\<rparr>))"

text \<open>
  The colour of a point in the words of section 4.3 of the specification: the angle by
  \<open>degNorm\<close>, the boost divided by \<open>0.16\<close>, and no colour outside the band.
\<close>

definition theta_spec :: "real \<Rightarrow> real \<Rightarrow> real" where
  "theta_spec x y = degNorm (Math_atan2 (x - MODEL_cx) (- (y - MODEL_cy)) * 180 / pi)"

definition wheelColor_spec :: "real \<Rightarrow> real \<Rightarrow> RGB option" where
  "wheelColor_spec x y =
     (let r = radiusFromXY x y
      in if MODEL_R_inner \<le> r \<and> r \<le> MODEL_R_color then
           (let f = clamp01 ((r - MODEL_R_inner) / (MODEL_R_color - MODEL_R_inner));
                s = clamp01 (f powr 1.25);
                l = clamp01 (0.92 - 0.42 * f powr 0.85);
                boost = (if f > 0.84 then (f - 0.84) / 0.16 else 0);
                s2 = clamp01 (s + 0.22 * boost);
                l2 = clamp01 (l - 0.06 * boost)
            in Some (hslToRgb (theta_spec x y) s2 l2))
         else None)"

section \<open>Harmony angles (\<^verbatim>\<open>utils/harmonies.ts\<close>)\<close>

datatype HarmonyType = Complementary | Split_Complementary | Analogous | Triadic | Tetradic

text \<open>The interface \<^verbatim>\<open>HarmonyAngle { label: string; a: number }\<close>.\<close>

record HarmonyAngle =
  ha_label :: string
  ha_a :: real

fun harmonyAngles :: "real \<Rightarrow> HarmonyType \<Rightarrow> HarmonyAngle list" where
  "harmonyAngles theta Complementary =
     (let t = degNorm theta in
      [\<lparr>ha_label = ''Base'', ha_a = t\<rparr>,
       \<lparr>ha_label = ''Comp'', ha_a = degNorm (t + 180)\<rparr>])"
| "harmonyAngles theta Split_Complementary =
     (let t = degNorm theta in
      [\<lparr>ha_label = ''Base'', ha_a = t\<rparr>,
       \<lparr>ha_label = ''Split-1'', ha_a = degNorm (t + 180 - 30)\<rparr>,
       \<lparr>ha_label = ''Split-2'', ha_a = degNorm (t + 180 + 30)\<rparr>])"
| "harmonyAngles theta Analogous =
     (let t = degNorm theta in
      [\<lparr>ha_label = ''Ana-1'', ha_a = degNorm (t - 30)\<rparr>,
       \<lparr>ha_label = ''Base'', ha_a = t\<rparr>,
       \<lparr>ha_label = ''Ana-2'', ha_a = degNorm (t + 30)\<rparr>])"
| "harmonyAngles theta Triadic =
     (let t = degNorm theta in
      [\<lparr>ha_label = ''Tri-1'', ha_a = t\<rparr>,
       \<lparr>ha_label = ''Tri-2'', ha_a = degNorm (t + 120)\<rparr>,
       \<lparr>ha_label = ''Tri-3'', ha_a = degNorm (t + 240)\<rparr>])"
| "harmonyAngles theta Tetradic =
     (let t = degNorm theta in
      [\<lparr>ha_label = ''Tet-1'', ha_a = t\<rparr>,
       \<lparr>ha_label = ''Tet-2'', ha_a = degNorm (t + 60)\<rparr>,
       \<lparr>ha_label = ''Tet-3'', ha_a = degNorm (t + 180)\<rparr>,
       \<lparr>ha_label = ''Tet-4'', ha_a = degNorm (t + 240)\<rparr>])"

text \<open>
  The table of section 4.4 of the specification, as it is written there: for each kind the
  labels in order, each with its offset from the base hue.
\<close>

fun harmony_table_spec :: "HarmonyType \<Rightarrow> (string \<times> real) list" where
  "harmony_table_spec Complementary = [(''Base'', 0), (''Comp'', 180)]"
| "harmony_table_spec Split_Complementary = [(''Base'', 0), (''Split-1'', 150), (''Split-2'', 210)]"
| "harmony_table_spec Analogous = [(''Ana-1'', - 30), (''Base'', 0), (''Ana-2'', 30)]"
| "harmony_table_spec Triadic = [(''Tri-1'', 0), (''Tri-2'', 120), (''Tri-3'', 240)]"
| "harmony_table_spec Tetradic =
     [(''Tet-1'', 0), (''Tet-2'', 60), (''Tet-3'', 180), (''Tet-4'', 240)]"

definition harmonyAngles_spec :: "real \<Rightarrow> HarmonyType \<Rightarrow> HarmonyAngle list" where
  "harmonyAngles_spec theta kind =
     map (\<lambda>(l, off). \<lparr>ha_label = l, ha_a = degNorm (theta + off)\<rparr>) (harmony_table_spec kind)"

section \<open>Artist descriptors (\<^verbatim>\<open>utils/artistDescriptors.ts\<close>)\<close>

definition HUE_NAMES :: "string list" where
  "HUE_NAMES =
     [''Red'', ''Red-Orange'', ''Orange'', ''Yellow-Orange'', ''Yellow'', ''Yellow-Green'',
      ''Green'', ''Blue-Green'', ''Cyan'', ''Blue-Cyan'', ''Blue'', ''Blue-Violet'',
      ''Violet'', ''Red-Violet'', ''Magenta'', ''Rose'']"

text \<open>
  The index is at most 15, since \<open>degNorm\<close> is below 360, so the read of \<open>HUE_NAMES\<close> is
  in range.
\<close>

definition hueName :: "real \<Rightarrow> string" where
  "hueName theta =
     (let t = degNorm theta;
          idx = \<lfloor>(t + 11.25) / 22.5\<rfloor> mod 16
      in HUE_NAMES ! nat idx)"

datatype Temperature = Warm | Cool | Neutral

definition temperatureLabel :: "real \<Rightarrow> Temperature" where
  "temperatureLabel theta =
     (let t = degNorm theta;
          warm = ((t \<ge> 315 \<or> t < 120) \<and> \<not> (t \<ge> 75 \<and> t < 105));
          cool = (t \<ge> 150 \<and> t < 285)
      in if warm then Warm else if cool then Cool else Neutral)"

text \<open>
  The Neutral band as the specification describes it: the 105--120 and 285--315 gaps plus
  the 75--105 warm exclusion.
\<close>

definition neutral_band_spec :: "real \<Rightarrow> bool" where
  "neutral_band_spec t \<longleftrightarrow>
     (105 \<le> t \<and> t < 120) \<or> (285 \<le> t \<and> t < 315) \<or> (75 \<le> t \<and> t < 105)"

section \<open>Probing the wheel (\<^verbatim>\<open>hooks/useColorWheel.ts\<close>)\<close>

record Point =
  pt_x :: real
  pt_y :: real

record WheelTransform =
  tf_scale :: real
  tf_dx :: real
  tf_dy :: real
  tf_dpr :: real
  tf_w :: real
  tf_h :: real

text \<open>
  The interface \<^verbatim>\<open>Complement\<close>, without its fields \<^verbatim>\<open>lab\<close>, \<^verbatim>\<open>lch\<close> and \<^verbatim>\<open>dE76\<close>, which
  are functions of \<^verbatim>\<open>rgb\<close> and of the sample's colour.
\<close>

record Complement =
  comp_theta :: real
  comp_rgb :: RGB
  comp_hex :: string

text \<open>
  The interface \<^verbatim>\<open>Sample\<close>: the coordinates, the wheel position, the colour, the
  descriptors and colour spaces that the palette and the ladder of tints read, and the
  complement.  The fields left out (\<^verbatim>\<open>cssRgb\<close>, the two proxies, \<^verbatim>\<open>hsv\<close>, \<^verbatim>\<open>hwb\<close>,
  \<^verbatim>\<open>xyz\<close>, \<^verbatim>\<open>xyY\<close>, \<^verbatim>\<open>uvp\<close>, \<^verbatim>\<open>lab\<close>, \<^verbatim>\<open>lch\<close>, \<^verbatim>\<open>oklab\<close>, \<^verbatim>\<open>oklch\<close>, the luminance,
  the two contrasts and \<^verbatim>\<open>cct\<close>) are functions of the pixel colour alone and are read by
  the display only.  The optional field \<^verbatim>\<open>comp\<close> is an option.
\<close>

record Sample =
  s_xCanvas :: real
  s_yCanvas :: real
  s_xOff :: real
  s_yOff :: real
  s_theta :: real
  s_r :: real
  s_f :: real
  s_inside :: bool
  s_rgb :: RGB
  s_hex :: string
  s_hueLabel :: string
  s_temp :: Temperature
  s_hsl :: HSL
  s_cmyk :: CMYK
  s_linRgb :: LinearRGB
  s_comp :: "Complement option"

text \<open>
  The offscreen canvas: \<open>None\<close> while \<^verbatim>\<open>offCtxRef.current\<close> is \<^verbatim>\<open>null\<close>, otherwise the
  bitmap, a colour for each pixel, which is what \<^verbatim>\<open>getImageData(ix, iy, 1, 1)\<close> reads.
\<close>

type_synonym OffCtx = "(int \<Rightarrow> int \<Rightarrow> RGB) option"

definition readOffRgb :: "OffCtx \<Rightarrow> int \<Rightarrow> int \<Rightarrow> RGB" where
  "readOffRgb offCtx ix iy =
     (case offCtx of
        None \<Rightarrow> \<lparr>rgb_r = 255, rgb_g = 255, rgb_b = 255\<rparr>
      | Some px \<Rightarrow> px ix iy)"

definition canvasToOff :: "WheelTransform \<Rightarrow> Point \<Rightarrow> Point" where
  "canvasToOff t pt =
     \<lparr>pt_x = (pt_x pt - tf_dx t) / tf_scale t, pt_y = (pt_y pt - tf_dy t) / tf_scale t\<rparr>"

text \<open>
  The pixel of a coordinate, \<^verbatim>\<open>Math.max(0, Math.min(OFF_SIZE - 1, Math.round(v)))\<close>, which the
  source writes out at each of its uses.
\<close>

definition pixelIndex :: "real \<Rightarrow> int" where
  "pixelIndex v = max 0 (min (\<lfloor>OFF_SIZE\<rfloor> - 1) (Math_round v))"

definition sampleAtCanvas :: "OffCtx \<Rightarrow> WheelTransform \<Rightarrow> Point \<Rightarrow> Sample option" where
  "sampleAtCanvas offCtx tf ptCanvas =
     (if offCtx = None then None
      else
        (let ptOff = canvasToOff tf ptCanvas
         in if pt_x ptOff < 0 \<or> pt_y ptOff < 0 \<or> pt_x ptOff \<ge> OFF_SIZE \<or> pt_y ptOff \<ge> OFF_SIZE
            then None
            else
              (let ix = pixelIndex (pt_x ptOff);
                   iy = pixelIndex (pt_y ptOff);
                   px = readOffRgb offCtx ix iy;
                   r = rgb_r px; g = rgb_g px; b = rgb_b px;
                   rr = radiusFromXY (pt_x ptOff) (pt_y ptOff);
                   inside = (rr \<le> MODEL_R_color \<and> rr \<ge> MODEL_R_inner);
                   theta = thetaDegFromXY (pt_x ptOff) (pt_y ptOff);
                   f = clamp01 ((rr - MODEL_R_inner) / (MODEL_R_color - MODEL_R_inner));
                   hex = rgbToHex r g b;
                   hsl = rgbToHsl r g b;
                   cmyk = rgbToCmyk r g b;
                   linRgb = rgbToLinearRgb r g b;
                   hueLabel = hueName theta;
                   temp = temperatureLabel theta;
                   comp =
                     (if inside then
                        (let compTheta = jsrem (theta + 180) 360;
                             rad = compTheta * pi / 180;
                             dx = sin rad;
                             dy = - cos rad;
                             compOff = \<lparr>pt_x = MODEL_cx + dx * rr, pt_y = MODEL_cy + dy * rr\<rparr>;
                             cix = pixelIndex (pt_x compOff);
                             ciy = pixelIndex (pt_y compOff);
                             crgb = readOffRgb offCtx cix ciy;
                             chex = rgbToHex (rgb_r crgb) (rgb_g crgb) (rgb_b crgb)
                         in Some \<lparr>comp_theta = compTheta, comp_rgb = crgb, comp_hex = chex\<rparr>)
                      else None)
               in Some \<lparr>s_xCanvas = pt_x ptCanvas, s_yCanvas = pt_y ptCanvas,
                        s_xOff = pt_x ptOff, s_yOff = pt_y ptOff,
                        s_theta = theta, s_r = rr, s_f = f, s_inside = inside,
                        s_rgb = \<lparr>rgb_r = r, rgb_g = g, rgb_b = b\<rparr>, s_hex = hex,
                        s_hueLabel = hueLabel, s_temp = temp,
                        s_hsl = hsl, s_cmyk = cmyk, s_linRgb = linRgb,
                        s_comp = comp\<rparr>)))"

text \<open>
  The point of the wheel at an angle and a radius, as the complement lookup and the harmony
  lookup compute it.
\<close>

definition polarToOff_spec :: "real \<Rightarrow> real \<Rightarrow> Point" where
  "polarToOff_spec a rr =
     \<lparr>pt_x = MODEL_cx + sin (a * pi / 180) * rr, pt_y = MODEL_cy + - cos (a * pi / 180) * rr\<rparr>"

section \<open>Tints and shades (\<^verbatim>\<open>hooks/useColorWheel.ts\<close>)\<close>

record TintShadeStep =
  ts_label :: string
  ts_rgb :: RGB
  ts_hex :: string

text \<open>The first loop, \<^verbatim>\<open>for (let i = half; i >= 1; i--)\<close>, with the array it pushes to.\<close>

function tintLoop :: "RGB \<Rightarrow> int \<Rightarrow> int \<Rightarrow> TintShadeStep list \<Rightarrow> TintShadeStep list" where
  "tintLoop base half i arr =
     (if i \<ge> 1 then
        (let tt = of_int i / (of_int half + 1);
             rgb = mixLinearRGB base white tt
         in tintLoop base half (i - 1)
              (arr @ [\<lparr>ts_label = ''Tint '' @ toString10 i, ts_rgb = rgb,
                       ts_hex = rgbToHex (rgb_r rgb) (rgb_g rgb) (rgb_b rgb)\<rparr>]))
      else arr)"
  by pat_completeness auto
termination
  by (relation "measure (\<lambda>(base, half, i, arr). nat i)") auto

text \<open>The second loop, \<^verbatim>\<open>for (let i = 1; i <= half; i++)\<close>.\<close>

function shadeLoop :: "RGB \<Rightarrow> int \<Rightarrow> int \<Rightarrow> TintShadeStep list \<Rightarrow> TintShadeStep list" where
  "shadeLoop base half i arr =
     (if i \<le> half then
        (let tt = of_int i / (of_int half + 1);
             rgb = mixLinearRGB base black tt
         in shadeLoop base half (i + 1)
              (arr @ [\<lparr>ts_label = ''Shade '' @ toString10 i, ts_rgb = rgb,
                       ts_hex = rgbToHex (rgb_r rgb) (rgb_g rgb) (rgb_b rgb)\<rparr>]))
      else arr)"
  by pat_completeness auto
termination
  by (relation "measure (\<lambda>(base, half, i, arr). nat (half + 1 - i))") auto

text \<open>The memoised value \<^verbatim>\<open>tints\<close>, a function of the sample and of \<^verbatim>\<open>tintSteps\<close>.\<close>

definition tints :: "Sample option \<Rightarrow> real \<Rightarrow> TintShadeStep list" where
  "tints sample tintSteps =
     (case sample of
        None \<Rightarrow> []
      | Some smp \<Rightarrow>
          (let base = s_rgb smp;
               steps = max 3 (min 11 tintSteps);
               half = \<lfloor>steps / 2\<rfloor>;
               arr1 = tintLoop base half half [];
               arr2 = arr1 @ [\<lparr>ts_label = ''Base'', ts_rgb = base, ts_hex = s_hex smp\<rparr>]
           in shadeLoop base half 1 arr2))"

text \<open>
  The ladder in the words of section 4.6 of the specification: \<open>half\<close> tints at the fractions
  \<open>i / (half + 1)\<close> for \<open>i\<close> from \<open>half\<close> down to 1, the base, and \<open>half\<close> shades at the same
  fractions for \<open>i\<close> from 1 to \<open>half\<close>, every mix by the mixer given.
\<close>

definition ladder_spec ::
  "(RGB \<Rightarrow> RGB \<Rightarrow> real \<Rightarrow> RGB) \<Rightarrow> RGB \<Rightarrow> string \<Rightarrow> int \<Rightarrow> TintShadeStep list" where
  "ladder_spec mix base hex half =
     map (\<lambda>i. let c = mix base white (of_int i / (of_int half + 1))
              in \<lparr>ts_label = ''Tint '' @ toString10 i, ts_rgb = c,
                  ts_hex = rgbToHex (rgb_r c) (rgb_g c) (rgb_b c)\<rparr>) (rev [1..half])
     @ [\<lparr>ts_label = ''Base'', ts_rgb = base, ts_hex = hex\<rparr>]
     @ map (\<lambda>i. let c = mix base black (of_int i / (of_int half + 1))
                in \<lparr>ts_label = ''Shade '' @ toString10 i, ts_rgb = c,
                    ts_hex = rgbToHex (rgb_r c) (rgb_g c) (rgb_b c)\<rparr>) [1..half]"

text \<open>The step count the ladder realises: the odd number \<open>2 * half + 1\<close>.\<close>

definition oddSteps_spec :: "real \<Rightarrow> int" where
  "oddSteps_spec tintSteps = 2 * \<lfloor>max 3 (min 11 tintSteps) / 2\<rfloor> + 1"

section \<open>The palette (\<^verbatim>\<open>hooks/useColorWheel.ts\<close>)\<close>

record PaletteSwatch =
  sw_id :: string
  sw_hex :: string
  sw_rgb :: RGB
  sw_hsl :: HSL
  sw_name :: string

type_synonym Palette = "PaletteSwatch list"

text \<open>\<^verbatim>\<open>prev.some((p) => p.hex.toLowerCase() === sw.hex.toLowerCase())\<close>.\<close>

definition someSameHex :: "Palette \<Rightarrow> PaletteSwatch \<Rightarrow> bool" where
  "someSameHex prev sw = list_ex (\<lambda>p. toLowerCase (sw_hex p) = toLowerCase (sw_hex sw)) prev"

text \<open>
  The updater that \<^verbatim>\<open>addToPalette\<close> and \<^verbatim>\<open>addTintToPalette\<close> both hand to \<^verbatim>\<open>setPalette\<close>.
\<close>

definition pushSwatch :: "PaletteSwatch \<Rightarrow> Palette \<Rightarrow> Palette" where
  "pushSwatch sw prev = (if someSameHex prev sw then prev else take 24 (sw # prev))"

text \<open>
  An identifier is \<^verbatim>\<open>Date.now()\<close> and \<^verbatim>\<open>Math.random()\<close> put together; it is an argument
  here.  The degree sign of a name is the character \<open>0xB0\<close>.
\<close>

definition sampleSwatch :: "Sample \<Rightarrow> string \<Rightarrow> PaletteSwatch" where
  "sampleSwatch smp ident =
     \<lparr>sw_id = ident, sw_hex = s_hex smp, sw_rgb = s_rgb smp, sw_hsl = s_hsl smp,
      sw_name = s_hueLabel smp @ '' '' @ toFixed0 (s_theta smp) @ [CHR 0xB0]\<rparr>"

definition addToPalette :: "Sample option \<Rightarrow> string \<Rightarrow> Palette \<Rightarrow> Palette" where
  "addToPalette sample ident prev =
     (case sample of
        None \<Rightarrow> prev
      | Some smp \<Rightarrow> (let sw = sampleSwatch smp ident in pushSwatch sw prev))"

text \<open>
  The loop over the harmony items, which pushes a swatch for each; \<open>idents k\<close> is the
  identifier drawn for the item of index \<open>k\<close>.
\<close>

fun harmonySwatches ::
  "OffCtx \<Rightarrow> real \<Rightarrow> (nat \<Rightarrow> string) \<Rightarrow> nat \<Rightarrow> HarmonyAngle list \<Rightarrow> PaletteSwatch list" where
  "harmonySwatches offCtx rr idents k [] = []"
| "harmonySwatches offCtx rr idents k (it # items) =
     (let rad = ha_a it * pi / 180;
          dx = sin rad;
          dy = - cos rad;
          ptOff = \<lparr>pt_x = MODEL_cx + dx * rr, pt_y = MODEL_cy + dy * rr\<rparr>;
          ix = pixelIndex (pt_x ptOff);
          iy = pixelIndex (pt_y ptOff);
          px = readOffRgb offCtx ix iy;
          r = rgb_r px; g = rgb_g px; b = rgb_b px;
          hex = rgbToHex r g b;
          hsl = rgbToHsl r g b
      in \<lparr>sw_id = idents k, sw_hex = hex, sw_rgb = \<lparr>rgb_r = r, rgb_g = g, rgb_b = b\<rparr>,
          sw_hsl = hsl,
          sw_name = ha_label it @ '' '' @ hueName (ha_a it) @ '' '' @ toFixed0 (ha_a it)
                    @ [CHR 0xB0]\<rparr>
         # harmonySwatches offCtx rr idents (Suc k) items)"

text \<open>The loop that keeps the first swatch of each hex string.\<close>

fun uniqLoop :: "Palette \<Rightarrow> PaletteSwatch list \<Rightarrow> Palette" where
  "uniqLoop uniq [] = uniq"
| "uniqLoop uniq (s # merged) =
     uniqLoop (if \<not> someSameHex uniq s then uniq @ [s] else uniq) merged"

definition addHarmonyToPalette ::
  "OffCtx \<Rightarrow> Sample option \<Rightarrow> HarmonyType \<Rightarrow> (nat \<Rightarrow> string) \<Rightarrow> Palette \<Rightarrow> Palette" where
  "addHarmonyToPalette offCtx sample harmonyType idents prev =
     (case sample of
        None \<Rightarrow> prev
      | Some smp \<Rightarrow>
          if \<not> s_inside smp then prev
          else
            (let rr = s_r smp;
                 items = harmonyAngles (s_theta smp) harmonyType;
                 newSwatches = harmonySwatches offCtx rr idents 0 items;
                 merged = newSwatches @ prev
             in take 24 (uniqLoop [] merged)))"

definition tintSwatch :: "TintShadeStep \<Rightarrow> string \<Rightarrow> PaletteSwatch" where
  "tintSwatch tint ident =
     \<lparr>sw_id = ident, sw_hex = ts_hex tint, sw_rgb = ts_rgb tint,
      sw_hsl = rgbToHsl (rgb_r (ts_rgb tint)) (rgb_g (ts_rgb tint)) (rgb_b (ts_rgb tint)),
      sw_name = ts_label tint\<rparr>"

definition addTintToPalette :: "TintShadeStep \<Rightarrow> string \<Rightarrow> Palette \<Rightarrow> Palette" where
  "addTintToPalette tint ident prev = (let sw = tintSwatch tint ident in pushSwatch sw prev)"

definition removeSwatch :: "string \<Rightarrow> Palette \<Rightarrow> Palette" where
  "removeSwatch ident prev = filter (\<lambda>p. sw_id p \<noteq> ident) prev"

definition clearPalette :: "Palette \<Rightarrow> Palette" where
  "clearPalette prev = []"

text \<open>
  The five mutations, each with what the hook holds when it is called, and a run of
  mutations from the empty palette the hook starts with.
\<close>

datatype PaletteOp =
    Add "Sample option" string
  | AddHarmony OffCtx "Sample option" HarmonyType "nat \<Rightarrow> string"
  | AddTint TintShadeStep string
  | Remove string
  | Clear

fun applyOp :: "PaletteOp \<Rightarrow> Palette \<Rightarrow> Palette" where
  "applyOp (Add sample ident) prev = addToPalette sample ident prev"
| "applyOp (AddHarmony offCtx sample harmonyType idents) prev =
     addHarmonyToPalette offCtx sample harmonyType idents prev"
| "applyOp (AddTint tint ident) prev = addTintToPalette tint ident prev"
| "applyOp (Remove ident) prev = removeSwatch ident prev"
| "applyOp Clear prev = clearPalette prev"

definition runOps :: "PaletteOp list \<Rightarrow> Palette" where
  "runOps ops = fold applyOp ops []"

text \<open>
  The invariant of section 3: at most 24 swatches, their hex strings pairwise distinct
  without regard to case.
\<close>

definition palette_inv :: "Palette \<Rightarrow> bool" where
  "palette_inv p \<longleftrightarrow> length p \<le> 24 \<and> distinct (map (\<lambda>s. toLowerCase (sw_hex s)) p)"

text \<open>
  A hex string occurs in a palette when some swatch has it, letter case apart: the
  duplicate test of section 4.6.
\<close>

definition hexOccurs_spec :: "Palette \<Rightarrow> string \<Rightarrow> bool" where
  "hexOccurs_spec prev hex \<longleftrightarrow> (\<exists>p \<in> set prev. toLowerCase (sw_hex p) = toLowerCase hex)"

section \<open>Degenerate values (\<^verbatim>\<open>utils/colorConversions.ts\<close>)\<close>

text \<open>
  The three functions that produce or test \<^verbatim>\<open>NaN\<close> are modelled on numbers with the special
  values of the source language: a finite number, the two infinities, and \<^verbatim>\<open>NaN\<close>.  The
  operations follow IEEE 754 on the special values.  A finite result is the exact real, so
  without rounding to the nearest double, but it overflows as a double does: the largest
  double is \<open>2^1024 - 2^971\<close>, and an exact result of size \<open>2^1024 - 2^970\<close> or more, half a
  unit in the last place beyond it, is an infinity.  Zero has no sign here and divides as
  the positive zero, which is the zero of the one difference, \<^verbatim>\<open>0.1858 - y\<close>, that these
  functions divide by unguarded.
\<close>

datatype jsnum = Fin real | PosInf | NegInf | NaN


definition overflowAt :: real where
  "overflowAt = 2 ^ 1024 - 2 ^ 970"

text \<open>The value of an operation whose exact result is \<open>a\<close>.\<close>

definition ovf :: "real \<Rightarrow> jsnum" where
  "ovf a = (if overflowAt \<le> a then PosInf else if a \<le> - overflowAt then NegInf else Fin a)"

fun isFinite :: "jsnum \<Rightarrow> bool" where
  "isFinite (Fin a) = True"
| "isFinite x = False"

fun jadd :: "jsnum \<Rightarrow> jsnum \<Rightarrow> jsnum" where
  "jadd NaN y = NaN"
| "jadd x NaN = NaN"
| "jadd (Fin a) (Fin b) = ovf (a + b)"
| "jadd PosInf NegInf = NaN"
| "jadd NegInf PosInf = NaN"
| "jadd PosInf y = PosInf"
| "jadd x PosInf = PosInf"
| "jadd NegInf y = NegInf"
| "jadd x NegInf = NegInf"

fun jneg :: "jsnum \<Rightarrow> jsnum" where
  "jneg (Fin a) = Fin (- a)"
| "jneg PosInf = NegInf"
| "jneg NegInf = PosInf"
| "jneg NaN = NaN"

definition jsub :: "jsnum \<Rightarrow> jsnum \<Rightarrow> jsnum" where
  "jsub x y = jadd x (jneg y)"

fun jmul :: "jsnum \<Rightarrow> jsnum \<Rightarrow> jsnum" where
  "jmul NaN y = NaN"
| "jmul x NaN = NaN"
| "jmul (Fin a) (Fin b) = ovf (a * b)"
| "jmul (Fin a) PosInf = (if a = 0 then NaN else if 0 < a then PosInf else NegInf)"
| "jmul (Fin a) NegInf = (if a = 0 then NaN else if 0 < a then NegInf else PosInf)"
| "jmul PosInf (Fin b) = (if b = 0 then NaN else if 0 < b then PosInf else NegInf)"
| "jmul NegInf (Fin b) = (if b = 0 then NaN else if 0 < b then NegInf else PosInf)"
| "jmul PosInf PosInf = PosInf"
| "jmul PosInf NegInf = NegInf"
| "jmul NegInf PosInf = NegInf"
| "jmul NegInf NegInf = PosInf"

fun jdiv :: "jsnum \<Rightarrow> jsnum \<Rightarrow> jsnum" where
  "jdiv NaN y = NaN"
| "jdiv x NaN = NaN"
| "jdiv (Fin a) (Fin b) =
     (if b = 0 then (if a = 0 then NaN else if 0 < a then PosInf else NegInf) else ovf (a / b))"
| "jdiv (Fin a) PosInf = Fin 0"
| "jdiv (Fin a) NegInf = Fin 0"
| "jdiv PosInf (Fin b) = (if 0 \<le> b then PosInf else NegInf)"
| "jdiv NegInf (Fin b) = (if 0 \<le> b then NegInf else PosInf)"
| "jdiv PosInf PosInf = NaN"
| "jdiv PosInf NegInf = NaN"
| "jdiv NegInf PosInf = NaN"
| "jdiv NegInf NegInf = NaN"


text \<open>
  \<^verbatim>\<open>x ** k\<close> for a literal exponent \<open>k\<close>: one operation, which overflows when the exact
  power does.
\<close>

fun jpow :: "jsnum \<Rightarrow> nat \<Rightarrow> jsnum" where
  "jpow x 0 = Fin 1"
| "jpow (Fin a) k = ovf (a ^ k)"
| "jpow PosInf k = PosInf"
| "jpow NegInf k = (if even k then PosInf else NegInf)"
| "jpow NaN k = NaN"






definition cctMcCamyFromXy :: "jsnum \<Rightarrow> jsnum \<Rightarrow> jsnum" where
  "cctMcCamyFromXy x y =
     (if \<not> isFinite x \<or> \<not> isFinite y then NaN
      else
        (let n = jdiv (jsub x (Fin 0.332)) (jsub (Fin 0.1858) y)
         in jadd (jadd (jadd (jmul (Fin 449) (jpow n 3)) (jmul (Fin 3525) (jpow n 2)))
                   (jmul (Fin 6823.3) n))
              (Fin 5520.33)))"







definition fits :: "real \<Rightarrow> bool" where
  "fits a \<longleftrightarrow> - overflowAt < a \<and> a < overflowAt"

section \<open>Example values\<close>

text \<open>The transform the hook starts with, before the first resize.\<close>

definition initialTransform :: WheelTransform where
  "initialTransform = \<lparr>tf_scale = 1, tf_dx = 0, tf_dy = 0, tf_dpr = 1, tf_w = 0, tf_h = 0\<rparr>"

text \<open>A canvas of one colour, the red of the top of the rim.\<close>

definition flatCanvas :: OffCtx where
  "flatCanvas = Some (\<lambda>ix iy. \<lparr>rgb_r = 224, rgb_g = 0, rgb_b = 0\<rparr>)"

text \<open>The sample of the top of the rim on that canvas.\<close>

definition rimSample :: Sample where
  "rimSample =
     \<lparr>s_xCanvas = 800, s_yCanvas = 96, s_xOff = 800, s_yOff = 96,
      s_theta = 0, s_r = 704, s_f = 1, s_inside = True,
      s_rgb = \<lparr>rgb_r = 224, rgb_g = 0, rgb_b = 0\<rparr>, s_hex = ''#e00000'',
      s_hueLabel = ''Red'', s_temp = Warm,
      s_hsl = rgbToHsl 224 0 0, s_cmyk = rgbToCmyk 224 0 0, s_linRgb = rgbToLinearRgb 224 0 0,
      s_comp = Some \<lparr>comp_theta = 180, comp_rgb = \<lparr>rgb_r = 224, rgb_g = 0, rgb_b = 0\<rparr>,
                      comp_hex = ''#e00000''\<rparr>\<rparr>"

text \<open>A dark blue swatch for each of 24 hex strings, and the palette of the 24.\<close>

definition blueSwatch :: "nat \<Rightarrow> PaletteSwatch" where
  "blueSwatch n =
     \<lparr>sw_id = decDigits n, sw_hex = ''#0000'' @ padStart2 (hexDigits n),
      sw_rgb = \<lparr>rgb_r = 0, rgb_g = 0, rgb_b = of_nat n\<rparr>,
      sw_hsl = \<lparr>hsl_h = 240, hsl_s = 1, hsl_l = of_nat n / 510\<rparr>,
      sw_name = ''Blue 240'' @ [CHR 0xB0]\<rparr>"

definition palette24 :: Palette where
  "palette24 = map blueSwatch [0..<24]"

text \<open>A sample and a tint whose hex strings the palette has, and a tint it has not.\<close>

definition blueSample :: Sample where
  "blueSample =
     rimSample\<lparr>s_rgb := \<lparr>rgb_r = 0, rgb_g = 0, rgb_b = 10\<rparr>, s_hex := ''#00000a''\<rparr>"

definition blueTint :: TintShadeStep where
  "blueTint = \<lparr>ts_label = ''Base'', ts_rgb = \<lparr>rgb_r = 0, rgb_g = 0, rgb_b = 10\<rparr>, ts_hex = ''#00000a''\<rparr>"

definition rimTint :: TintShadeStep where
  "rimTint = \<lparr>ts_label = ''Base'', ts_rgb = \<lparr>rgb_r = 224, rgb_g = 0, rgb_b = 0\<rparr>, ts_hex = ''#e00000''\<rparr>"

declare hexDigits.simps [simp del] decDigits.simps [simp del]
  tintLoop.simps [simp del] shadeLoop.simps [simp del]

section \<open>Properties of the number primitives\<close>

lemma trunc_nonneg: "0 \<le> x \<Longrightarrow> trunc x = \<lfloor>x\<rfloor>"
  by (simp add: trunc_def)

lemma jsrem_nonneg: "0 \<le> a \<Longrightarrow> 0 < b \<Longrightarrow> jsrem a b = a - b * of_int \<lfloor>a / b\<rfloor>"
  by (simp add: jsrem_def trunc_def)

lemma jsrem_neg: "a < 0 \<Longrightarrow> 0 < b \<Longrightarrow> jsrem a b = a + b * of_int \<lfloor>- a / b\<rfloor>"
proof -
  assume "a < 0" "0 < b"
  then have "a / b < 0" by (simp add: divide_neg_pos)
  then show ?thesis by (simp add: jsrem_def trunc_def)
qed

lemma floor_rem_bounds:
  fixes a b :: real
  assumes "0 < b"
  shows "0 \<le> a - b * of_int \<lfloor>a / b\<rfloor>" and "a - b * of_int \<lfloor>a / b\<rfloor> < b"
proof -
  have "of_int \<lfloor>a / b\<rfloor> \<le> a / b" by simp
  then have "of_int \<lfloor>a / b\<rfloor> * b \<le> a"
    using assms by (simp only: pos_le_divide_eq)
  then have "b * of_int \<lfloor>a / b\<rfloor> \<le> a"
    by (simp only: mult.commute)
  then show "0 \<le> a - b * of_int \<lfloor>a / b\<rfloor>" by simp
  have "a / b < of_int \<lfloor>a / b\<rfloor> + 1" by linarith
  then have "a < (of_int \<lfloor>a / b\<rfloor> + 1) * b"
    using assms by (simp only: pos_divide_less_eq)
  then show "a - b * of_int \<lfloor>a / b\<rfloor> < b" by (simp add: algebra_simps)
qed

lemma floor_div_small: "0 \<le> a \<Longrightarrow> a < b \<Longrightarrow> \<lfloor>a / b\<rfloor> = (0::int)" for a b :: real
  by (simp add: floor_eq_iff)

lemma jsrem_small: "0 \<le> a \<Longrightarrow> a < b \<Longrightarrow> jsrem a b = a"
  by (simp add: jsrem_def trunc_def floor_div_small)

lemma jsrem_small_neg: "- b < a \<Longrightarrow> a \<le> 0 \<Longrightarrow> jsrem a b = a"
proof -
  assume h: "- b < a" "a \<le> 0"
  then have b: "0 < b" by simp
  show ?thesis
  proof (cases "a = 0")
    case True
    then show ?thesis by (simp add: jsrem_def trunc_def)
  next
    case False
    with h have "a < 0" by simp
    moreover have "\<lfloor>- a / b\<rfloor> = 0"
      using h b floor_div_small [of "- a" b] by simp
    ultimately show ?thesis using b by (simp add: jsrem_neg)
  qed
qed

text \<open>\<open>degNorm\<close> is the remainder of the floor division by 360.\<close>

lemma degNorm_floor: "degNorm d = d - 360 * of_int \<lfloor>d / 360\<rfloor>"
proof (cases "0 \<le> d")
  case True
  define m where "m = d - 360 * of_int \<lfloor>d / 360\<rfloor>"
  have m: "0 \<le> m" "m < 360"
    using floor_rem_bounds [of 360 d] by (simp_all add: m_def)
  have 1: "jsrem d 360 = m"
    using True by (simp add: jsrem_nonneg m_def)
  have "\<lfloor>(m + 360) / 360\<rfloor> = 1"
    using m by (simp add: floor_eq_iff)
  then have "jsrem (m + 360) 360 = m"
    using m by (simp add: jsrem_nonneg)
  with 1 show ?thesis by (simp add: degNorm_def m_def)
next
  case False
  then have neg: "d < 0" by simp
  define q where "q = \<lfloor>- d / 360\<rfloor>"
  define m where "m = d + 360 * of_int q"
  have 1: "jsrem d 360 = m"
    using neg by (simp add: jsrem_neg m_def q_def)
  have "0 \<le> - d - 360 * of_int \<lfloor>- d / 360\<rfloor>" "- d - 360 * of_int \<lfloor>- d / 360\<rfloor> < 360"
    using floor_rem_bounds [of 360 "- d"] by simp_all
  then have m: "- 360 < m" "m \<le> 0" by (simp_all add: m_def q_def)
  show ?thesis
  proof (cases "m = 0")
    case True
    then have "d / 360 = of_int (- q)" by (simp add: m_def)
    then have "\<lfloor>d / 360\<rfloor> = - q" by (metis floor_of_int)
    moreover have "jsrem (m + 360) 360 = 0"
      using True by (simp add: jsrem_def trunc_def)
    ultimately show ?thesis using 1 True by (simp add: degNorm_def m_def)
  next
    case False
    with m have m': "- 360 < m" "m < 0" by simp_all
    then have "jsrem (m + 360) 360 = m + 360"
      by (simp add: jsrem_small)
    moreover have "\<lfloor>d / 360\<rfloor> = - q - 1"
    proof -
      have "d / 360 = m / 360 - of_int q" by (simp add: m_def field_simps)
      then have "\<lfloor>d / 360\<rfloor> = \<lfloor>m / 360\<rfloor> - q" by (simp only: floor_diff_of_int)
      moreover have "\<lfloor>m / 360\<rfloor> = - 1" using m' by (simp add: floor_eq_iff)
      ultimately show ?thesis by simp
    qed
    ultimately show ?thesis using 1 by (simp add: degNorm_def m_def)
  qed
qed

lemma degNorm_range: "0 \<le> degNorm d" "degNorm d < 360"
  using floor_rem_bounds [of 360 d] by (simp_all add: degNorm_floor)

lemma degNorm_id: "0 \<le> d \<Longrightarrow> d < 360 \<Longrightarrow> degNorm d = d"
  by (simp add: degNorm_floor floor_eq_iff)

lemma degNorm_add_left: "degNorm (degNorm t + k) = degNorm (t + k)"
proof -
  define n where "n = \<lfloor>t / 360\<rfloor>"
  have dt: "degNorm t = t - 360 * of_int n"
    by (simp add: degNorm_floor n_def)
  have "(t - 360 * of_int n + k) / 360 = (t + k) / 360 - of_int n"
    by (simp add: field_simps)
  then have "\<lfloor>(t - 360 * of_int n + k) / 360\<rfloor> = \<lfloor>(t + k) / 360\<rfloor> - n"
    by (simp only: floor_diff_of_int)
  then show ?thesis
    unfolding dt degNorm_floor [of "t - 360 * of_int n + k"] degNorm_floor [of "t + k"]
    by simp
qed

lemma degNorm_idem: "degNorm (degNorm t) = degNorm t"
  using degNorm_add_left [of t 0] by simp

section \<open>Harmony angles\<close>

lemma degNorm_add_right: "degNorm (k + degNorm t) = degNorm (t + k)"
  using degNorm_add_left [of t k] by (simp add: add.commute)

lemma degNorm_diff_left: "degNorm (degNorm t - k) = degNorm (t - k)"
  using degNorm_add_left [of t "- k"] by simp

lemma harmonyAngles_eq_spec: "harmonyAngles theta kind = harmonyAngles_spec theta kind"
  by (cases kind)
    (simp_all add: harmonyAngles_spec_def Let_def degNorm_add_left degNorm_add_right
      degNorm_diff_left degNorm_idem)

lemma harmonyAngles_spec_range:
  "h \<in> set (harmonyAngles_spec theta kind) \<Longrightarrow> 0 \<le> ha_a h \<and> ha_a h < 360"
  by (cases kind) (auto simp: harmonyAngles_spec_def degNorm_range)

lemma degNorm_plus_360: "0 \<le> d \<Longrightarrow> d < 360 \<Longrightarrow> degNorm (d + 360) = d"
  using degNorm_add_left [of 360 d] degNorm_id [of d] degNorm_floor [of 360]
  by (simp add: add.commute)

text \<open>
  Claim C4.  For every base hue and each of the five harmony kinds, \<open>harmonyAngles\<close>
  returns the labels of the table of section 4.4 in the table's order, the angle of each
  entry being the degree-normalised sum of the base hue and the entry's offset; every
  returned angle lies in \<open>[0, 360)\<close>, whatever the sign or size of the base hue; and the
  Triadic set of the hue 300 has the angles 300, 60, 180.
\<close>

theorem harmonyAngles_table:
  "harmonyAngles theta kind = harmonyAngles_spec theta kind
   \<and> (\<forall>h \<in> set (harmonyAngles theta kind). 0 \<le> ha_a h \<and> ha_a h < 360)
   \<and> map ha_a (harmonyAngles 300 Triadic) = [300, 60, 180]"
proof -
  have "degNorm 300 = 300" by (simp add: degNorm_id)
  moreover have "degNorm (300 + 120) = 60"
    using degNorm_plus_360 [of 60] by simp
  moreover have "degNorm (300 + 240) = 180"
    using degNorm_plus_360 [of 180] by simp
  ultimately have "map ha_a (harmonyAngles 300 Triadic) = [300, 60, 180]"
    by (simp add: Let_def)
  then show ?thesis
    using harmonyAngles_spec_range [of _ theta kind]
    by (auto simp: harmonyAngles_eq_spec)
qed

theorem harmonyAngles_table_witness:
  "harmonyAngles (- 30) Analogous =
     [\<lparr>ha_label = ''Ana-1'', ha_a = 300\<rparr>, \<lparr>ha_label = ''Base'', ha_a = 330\<rparr>,
      \<lparr>ha_label = ''Ana-2'', ha_a = 0\<rparr>]
   \<and> list_all (\<lambda>h. 0 \<le> ha_a h \<and> ha_a h < 360) (harmonyAngles (- 30) Analogous)"
proof -
  have "degNorm (- 30 + - 30) = 300" "degNorm (- 30 + 0) = 330" "degNorm (- 30 + 30) = 0"
    by (simp_all add: degNorm_floor)
  then show ?thesis
    using harmonyAngles_table [of "- 30" Analogous]
    by (simp add: harmonyAngles_spec_def)
qed

section \<open>Temperature label\<close>

text \<open>
  Claim C6, as the code has it.  With \<open>t = degNorm theta\<close>, \<open>temperatureLabel\<close> returns Warm
  iff \<open>(t \<ge> 315 \<or> t < 120)\<close> and not \<open>75 \<le> t < 105\<close>; otherwise Cool iff \<open>150 \<le> t < 285\<close>;
  otherwise Neutral.  The Neutral band that results is the 75--105 warm exclusion together
  with the gaps 120--150 and 285--315; the hues from 105 up to 120 are Warm.
\<close>

theorem temperatureLabel_bands:
  "temperatureLabel theta =
     (if (degNorm theta \<ge> 315 \<or> degNorm theta < 120) \<and> \<not> (75 \<le> degNorm theta \<and> degNorm theta < 105)
      then Warm else if 150 \<le> degNorm theta \<and> degNorm theta < 285 then Cool else Neutral)
   \<and> (temperatureLabel theta = Neutral \<longleftrightarrow>
        (75 \<le> degNorm theta \<and> degNorm theta < 105) \<or> (120 \<le> degNorm theta \<and> degNorm theta < 150)
        \<or> (285 \<le> degNorm theta \<and> degNorm theta < 315))
   \<and> (105 \<le> degNorm theta \<and> degNorm theta < 120 \<longrightarrow> temperatureLabel theta = Warm)"
  by (auto simp: temperatureLabel_def Let_def)

theorem temperatureLabel_bands_witness:
  "temperatureLabel 130 = Neutral \<and> 120 \<le> degNorm 130 \<and> degNorm 130 < 150
   \<and> 105 \<le> degNorm 110 \<and> degNorm 110 < 120 \<and> temperatureLabel 110 = Warm"
  using temperatureLabel_bands [of 130] temperatureLabel_bands [of 110]
  by (simp add: degNorm_id)

text \<open>
  The band the specification names does not fit the code: the hue 110 lies in the 105--120
  gap that the specification calls Neutral, and its label is Warm.
\<close>

theorem temperatureLabel_neutral_band_counterexample:
  "\<not> (temperatureLabel 110 = Neutral \<longleftrightarrow> neutral_band_spec (degNorm 110))"
  by (simp add: temperatureLabel_def neutral_band_spec_def degNorm_id)

section \<open>The sRGB transfer functions and the linear mix\<close>

text \<open>Powers with a rational exponent are compared through integer powers.\<close>

lemma powr_frac_less:
  fixes a b :: real
  assumes "0 < a" "0 < b" "0 < n" "a ^ m < b ^ n"
  shows "a powr (real m / real n) < b"
proof -
  have "a powr (real m / real n) = (a powr real m) powr (1 / real n)"
    by (simp add: powr_powr)
  also have "\<dots> = (a ^ m) powr (1 / real n)"
    using assms by (simp add: powr_realpow)
  also have "\<dots> < (b ^ n) powr (1 / real n)"
    using assms by (intro powr_less_mono2) simp_all
  also have "\<dots> = (b powr real n) powr (1 / real n)"
    using assms by (simp add: powr_realpow)
  also have "\<dots> = b"
    using assms by (simp add: powr_powr)
  finally show ?thesis .
qed

lemma powr_frac_greater:
  fixes a b :: real
  assumes "0 < a" "0 < b" "0 < n" "b ^ n < a ^ m"
  shows "b < a powr (real m / real n)"
proof -
  have "a powr (real m / real n) = (a powr real m) powr (1 / real n)"
    by (simp add: powr_powr)
  also have "\<dots> = (a ^ m) powr (1 / real n)"
    using assms by (simp add: powr_realpow)
  finally have e: "a powr (real m / real n) = (a ^ m) powr (1 / real n)" .
  have "b = (b powr real n) powr (1 / real n)"
    using assms by (simp add: powr_powr)
  also have "\<dots> = (b ^ n) powr (1 / real n)"
    using assms by (simp add: powr_realpow)
  also have "\<dots> < (a ^ m) powr (1 / real n)"
    using assms by (intro powr_less_mono2) simp_all
  finally show ?thesis using e by simp
qed

lemma Math_round_of_int: "Math_round (of_int k) = k"
  by (simp add: Math_round_def floor_eq_iff)

lemma clamp01_id: "0 \<le> v \<Longrightarrow> v \<le> 1 \<Longrightarrow> clamp01 v = v"
  by (simp add: clamp01_def)

lemma clamp01_range: "0 \<le> clamp01 v" "clamp01 v \<le> 1"
  by (simp_all add: clamp01_def)

lemma linearToSrgb_low:
  assumes "0 \<le> k" "k \<le> 10"
  shows "linearToSrgb (srgbToLinear (of_int k)) = of_int k"
proof -
  define u :: real where "u = of_int k / 255"
  have k: "(0::real) \<le> of_int k" "of_int k \<le> (10::real)" using assms by simp_all
  have u: "0 \<le> u" "u \<le> 10 / 255" using k by (simp_all add: u_def)
  then have 1: "srgbToLinear (of_int k) = u / 12.92"
    by (simp add: srgbToLinear_def u_def [symmetric])
  have 2: "u / 12.92 \<le> 0.0031308" using u by simp
  have 3: "clamp01 u = u" using u by (simp add: clamp01_id)
  have "linearToSrgb (u / 12.92) = of_int (Math_round (u * 255))"
    using 2 3 by (simp add: linearToSrgb_def)
  also have "u * 255 = of_int k" by (simp add: u_def)
  finally show ?thesis by (simp add: 1 Math_round_of_int)
qed

lemma linearToSrgb_high:
  assumes "11 \<le> k" "k \<le> 255"
  shows "linearToSrgb (srgbToLinear (of_int k)) = of_int k"
proof -
  define u :: real where "u = of_int k / 255"
  define x :: real where "x = (u + 0.055) / 1.055"
  define x0 :: real where "x0 = (11 / 255 + 0.055) / 1.055"
  have k: "(11::real) \<le> of_int k" "of_int k \<le> (255::real)" using assms by simp_all
  have u: "11 / 255 \<le> u" "u \<le> 1" using k by (simp_all add: u_def)
  then have "\<not> u \<le> 0.04045" by simp
  then have 1: "srgbToLinear (of_int k) = x powr 2.4"
    by (simp add: srgbToLinear_def u_def [symmetric] x_def)
  have x: "x0 \<le> x" "0 < x0" using u by (simp_all add: x_def x0_def)
  have "(0.0031308::real) < x0 powr (real 12 / real 5)"
    by (rule powr_frac_greater) (simp_all add: x0_def power_divide)
  also have "\<dots> \<le> x powr (real 12 / real 5)"
    using x by (intro powr_mono2) simp_all
  finally have 2: "\<not> x powr 2.4 \<le> 0.0031308" by simp
  have "(x powr 2.4) powr (1 / 2.4) = x powr (2.4 * (1 / 2.4))"
    by (simp only: powr_powr)
  also have "\<dots> = x" using x by simp
  finally have 3: "(x powr 2.4) powr (1 / 2.4) = x" .
  have 4: "1.055 * x - 0.055 = u" by (simp add: x_def field_simps)
  have 5: "clamp01 u = u" using u by (simp add: clamp01_id)
  have "linearToSrgb (x powr 2.4) = of_int (Math_round (u * 255))"
    using 2 by (simp only: linearToSrgb_def Let_def if_False 3 4 5)
  also have "u * 255 = of_int k" by (simp add: u_def)
  finally show ?thesis by (simp add: 1 Math_round_of_int)
qed

lemma linearToSrgb_srgbToLinear:
  assumes "is_byte v"
  shows "linearToSrgb (srgbToLinear v) = v"
proof -
  obtain k where k: "v = of_int k" "0 \<le> k" "k \<le> 255"
    using assms unfolding is_byte_def
    by (metis floor_mono floor_numeral floor_zero)
  show ?thesis
  proof (cases "k \<le> 10")
    case True
    then show ?thesis using k linearToSrgb_low by simp
  next
    case False
    then show ?thesis using k linearToSrgb_high by simp
  qed
qed

lemma linearToSrgb_half: "linearToSrgb 0.5 = 188"
proof -
  define p :: real where "p = 0.5 powr (1 / 2.4)"
  have e: "(1 / 2.4 :: real) = real 5 / real 12" by simp
  have lo: "(187.5 / 255 + 0.055) / 1.055 < p"
    unfolding p_def e by (rule powr_frac_greater) (simp_all add: power_divide)
  have hi: "p < (188.5 / 255 + 0.055) / 1.055"
    unfolding p_def e by (rule powr_frac_less) (simp_all add: power_divide)
  define v where "v = 1.055 * p - 0.055"
  have v: "187.5 / 255 < v" "v < 188.5 / 255"
    using lo hi by (simp_all add: v_def field_simps)
  then have c: "clamp01 v = v" by (simp add: clamp01_id)
  have "Math_round (v * 255) = 188"
    using v by (simp add: Math_round_def floor_eq_iff)
  then show ?thesis
    using c by (simp add: linearToSrgb_def v_def p_def)
qed

lemma linearToSrgb_half': "linearToSrgb (1 / 2) = 188"
  using linearToSrgb_half by simp

lemma srgbToLinear_0: "srgbToLinear 0 = 0"
  by (simp add: srgbToLinear_def)

lemma srgbToLinear_255: "srgbToLinear 255 = 1"
  by (simp add: srgbToLinear_def)

text \<open>
  Claim C5.  For colours \<open>a\<close> and \<open>b\<close> with integer channels in \<open>[0, 255]\<close>,
  \<open>mixLinearRGB a b 0 = a\<close> and \<open>mixLinearRGB a b 1 = b\<close>; and the even mix of black and white
  has every channel equal to 188, strictly between 100 and 200 and brighter than the 128
  of the average of the encoded channels.
\<close>

theorem mixLinearRGB_endpoints_midpoint:
  assumes "byteRGB a" and "byteRGB b"
  shows "mixLinearRGB a b 0 = a \<and> mixLinearRGB a b 1 = b
    \<and> mixLinearRGB black white 0.5 = \<lparr>rgb_r = 188, rgb_g = 188, rgb_b = 188\<rparr>
    \<and> 100 < rgb_r (mixLinearRGB black white 0.5) \<and> rgb_r (mixLinearRGB black white 0.5) < 200
    \<and> 100 < rgb_g (mixLinearRGB black white 0.5) \<and> rgb_g (mixLinearRGB black white 0.5) < 200
    \<and> 100 < rgb_b (mixLinearRGB black white 0.5) \<and> rgb_b (mixLinearRGB black white 0.5) < 200
    \<and> mixNaive_spec black white 0.5 = \<lparr>rgb_r = 128, rgb_g = 128, rgb_b = 128\<rparr>"
proof -
  have ends: "mixLinearRGB a b 0 = a" "mixLinearRGB a b 1 = b"
    using assms
    by (simp_all add: mixLinearRGB_def rgbToLinearRgb_def byteRGB_def linearToSrgb_srgbToLinear)
  have mid: "mixLinearRGB black white 0.5 = \<lparr>rgb_r = 188, rgb_g = 188, rgb_b = 188\<rparr>"
    by (simp add: mixLinearRGB_def rgbToLinearRgb_def black_def white_def srgbToLinear_0
        srgbToLinear_255 linearToSrgb_half')
  have naive: "mixNaive_spec black white 0.5 = \<lparr>rgb_r = 128, rgb_g = 128, rgb_b = 128\<rparr>"
    by (simp add: mixNaive_spec_def black_def white_def lerp_def Math_round_def)
  show ?thesis
    using ends naive mid by simp
qed

theorem mixLinearRGB_endpoints_midpoint_witness:
  "byteRGB \<lparr>rgb_r = 10, rgb_g = 128, rgb_b = 255\<rparr>
   \<and> byteRGB \<lparr>rgb_r = 0, rgb_g = 11, rgb_b = 200\<rparr>
   \<and> mixLinearRGB \<lparr>rgb_r = 10, rgb_g = 128, rgb_b = 255\<rparr> \<lparr>rgb_r = 0, rgb_g = 11, rgb_b = 200\<rparr> 0
       = \<lparr>rgb_r = 10, rgb_g = 128, rgb_b = 255\<rparr>
   \<and> mixLinearRGB \<lparr>rgb_r = 10, rgb_g = 128, rgb_b = 255\<rparr> \<lparr>rgb_r = 0, rgb_g = 11, rgb_b = 200\<rparr> 1
       = \<lparr>rgb_r = 0, rgb_g = 11, rgb_b = 200\<rparr>"
proof -
  have a: "byteRGB \<lparr>rgb_r = 10, rgb_g = 128, rgb_b = 255\<rparr>"
    by (simp add: byteRGB_def is_byte_def)
  have b: "byteRGB \<lparr>rgb_r = 0, rgb_g = 11, rgb_b = 200\<rparr>"
    by (simp add: byteRGB_def is_byte_def)
  show ?thesis
    using a b mixLinearRGB_endpoints_midpoint [OF a b] by simp
qed

section \<open>CMYK\<close>

lemma cmyk_key_spec_eq: "cmyk_key_spec r g b = 1 - max (r / 255) (max (g / 255) (b / 255))"
  by (simp add: cmyk_key_spec_def max_def divide_right_mono)

text \<open>
  Claim C8.  With \<open>k = 1 - max(r, g, b) / 255\<close>: when \<open>k \<ge> 1 - 1e-12\<close> the result of
  \<open>rgbToCmyk\<close> is \<open>{c: 0, m: 0, y: 0, k: 1}\<close>, the branch without a division; otherwise the
  denominator \<open>1 - k\<close> of the three divisions is greater than \<open>1e-12\<close>, the result is the
  clamped quotients, and \<open>c\<close>, \<open>m\<close>, \<open>y\<close> lie in \<open>[0, 1]\<close>.  For black the result is
  \<open>k = 1\<close> and \<open>c = m = y = 0\<close>.
\<close>

theorem rgbToCmyk_total:
  "(cmyk_key_spec r g b \<ge> 1 - 1 / 10 ^ 12 \<longrightarrow>
      rgbToCmyk r g b = \<lparr>cmyk_c = 0, cmyk_m = 0, cmyk_y = 0, cmyk_k = 1\<rparr>)
   \<and> (cmyk_key_spec r g b < 1 - 1 / 10 ^ 12 \<longrightarrow>
        1 / 10 ^ 12 < 1 - cmyk_key_spec r g b
        \<and> rgbToCmyk r g b =
            \<lparr>cmyk_c = clamp01 ((1 - r / 255 - cmyk_key_spec r g b) / (1 - cmyk_key_spec r g b)),
             cmyk_m = clamp01 ((1 - g / 255 - cmyk_key_spec r g b) / (1 - cmyk_key_spec r g b)),
             cmyk_y = clamp01 ((1 - b / 255 - cmyk_key_spec r g b) / (1 - cmyk_key_spec r g b)),
             cmyk_k = clamp01 (cmyk_key_spec r g b)\<rparr>
        \<and> 0 \<le> cmyk_c (rgbToCmyk r g b) \<and> cmyk_c (rgbToCmyk r g b) \<le> 1
        \<and> 0 \<le> cmyk_m (rgbToCmyk r g b) \<and> cmyk_m (rgbToCmyk r g b) \<le> 1
        \<and> 0 \<le> cmyk_y (rgbToCmyk r g b) \<and> cmyk_y (rgbToCmyk r g b) \<le> 1)
   \<and> rgbToCmyk 0 0 0 = \<lparr>cmyk_c = 0, cmyk_m = 0, cmyk_y = 0, cmyk_k = 1\<rparr>"
proof -
  have black: "rgbToCmyk 0 0 0 = \<lparr>cmyk_c = 0, cmyk_m = 0, cmyk_y = 0, cmyk_k = 1\<rparr>"
    by (simp add: rgbToCmyk_def)
  have first: "rgbToCmyk r g b = \<lparr>cmyk_c = 0, cmyk_m = 0, cmyk_y = 0, cmyk_k = 1\<rparr>"
    if "cmyk_key_spec r g b \<ge> 1 - 1 / 10 ^ 12"
    using that by (simp add: cmyk_key_spec_eq rgbToCmyk_def Let_def)
  have second: "rgbToCmyk r g b =
      \<lparr>cmyk_c = clamp01 ((1 - r / 255 - cmyk_key_spec r g b) / (1 - cmyk_key_spec r g b)),
       cmyk_m = clamp01 ((1 - g / 255 - cmyk_key_spec r g b) / (1 - cmyk_key_spec r g b)),
       cmyk_y = clamp01 ((1 - b / 255 - cmyk_key_spec r g b) / (1 - cmyk_key_spec r g b)),
       cmyk_k = clamp01 (cmyk_key_spec r g b)\<rparr>"
    if "cmyk_key_spec r g b < 1 - 1 / 10 ^ 12"
    using that by (simp add: cmyk_key_spec_eq rgbToCmyk_def Let_def)
  show ?thesis
    using black first second by (simp add: clamp01_range)
qed

theorem rgbToCmyk_total_witness:
  "cmyk_key_spec 0 0 0 \<ge> 1 - 1 / 10 ^ 12
   \<and> rgbToCmyk 0 0 0 = \<lparr>cmyk_c = 0, cmyk_m = 0, cmyk_y = 0, cmyk_k = 1\<rparr>
   \<and> cmyk_key_spec 255 51 0 < 1 - 1 / 10 ^ 12
   \<and> 1 / 10 ^ 12 < 1 - cmyk_key_spec 255 51 0
   \<and> rgbToCmyk 255 51 0 = \<lparr>cmyk_c = 0, cmyk_m = 4 / 5, cmyk_y = 1, cmyk_k = 0\<rparr>"
proof -
  have k: "cmyk_key_spec 255 51 0 = 0" "cmyk_key_spec 0 0 0 = 1"
    by (simp_all add: cmyk_key_spec_def)
  show ?thesis
    using rgbToCmyk_total [of 0 0 0] rgbToCmyk_total [of 255 51 0]
    by (simp add: k clamp01_def)
qed

section \<open>The colour of a point of the wheel\<close>

lemma Math_atan2_range: "- pi < Math_atan2 y x" "Math_atan2 y x \<le> pi"
proof -
  have b: "- (pi / 2) < arctan (y / x)" "arctan (y / x) < pi / 2"
    using arctan_lbound [of "y / x"] arctan_ubound [of "y / x"] by linarith+
  have neg: "arctan (y / x) \<le> 0" if "x < 0" "0 \<le> y"
    using that by (simp add: divide_nonneg_neg)
  have pos: "0 < arctan (y / x)" if "x < 0" "y < 0"
    using that by (simp add: divide_neg_neg)
  have p: "0 < pi" by simp
  show "- pi < Math_atan2 y x"
    using b neg pos p unfolding Math_atan2_def by (auto simp: not_less) 
  show "Math_atan2 y x \<le> pi"
    using b neg pos p unfolding Math_atan2_def by (auto simp: not_less)
qed

lemma deg_range:
  assumes "- pi < a" "a \<le> pi"
  shows "- 180 < a * 180 / pi" "a * 180 / pi \<le> 180"
proof -
  have p: "0 < pi" by simp
  show "- 180 < a * 180 / pi"
    using assms p by (simp add: field_simps)
  show "a * 180 / pi \<le> 180"
    using assms p by (simp add: field_simps)
qed

lemma degNorm_half_turn:
  assumes "- 180 < d" "d \<le> 180"
  shows "degNorm d = jsrem (d + 360) 360"
proof -
  have "jsrem d 360 = d"
  proof (cases "0 \<le> d")
    case True
    then show ?thesis using assms by (simp add: jsrem_small)
  next
    case False
    then show ?thesis using assms by (simp add: jsrem_small_neg)
  qed
  then show ?thesis by (simp add: degNorm_def)
qed

lemma thetaDegFromXY_spec:
  assumes "x \<noteq> MODEL_cx \<or> y \<noteq> MODEL_cy"
  shows "thetaDegFromXY x y = theta_spec x y"
proof -
  define a where "a = Math_atan2 (x - MODEL_cx) (- (y - MODEL_cy))"
  have "- pi < a" "a \<le> pi"
    unfolding a_def by (rule Math_atan2_range)+
  then have "degNorm (a * 180 / pi) = jsrem (a * 180 / pi + 360) 360"
    by (intro degNorm_half_turn deg_range)
  then show ?thesis
    using assms by (auto simp: thetaDegFromXY_def theta_spec_def Let_def a_def)
qed

lemma radiusFromXY_centre: "radiusFromXY MODEL_cx MODEL_cy = 0"
  by (simp add: radiusFromXY_def)

lemma R_inner_pos: "0 < MODEL_R_inner" "MODEL_R_inner < MODEL_R_color"
  by (simp_all add: MODEL_R_inner_def MODEL_R_color_def OFF_SIZE_def)

lemma wheelColorAt_refines:
  "map_option RGB.truncate (wheelColorAt x y) = wheelColor_spec x y"
proof (cases "MODEL_R_inner \<le> radiusFromXY x y \<and> radiusFromXY x y \<le> MODEL_R_color")
  case True
  then have "x \<noteq> MODEL_cx \<or> y \<noteq> MODEL_cy"
    using R_inner_pos radiusFromXY_centre by auto
  then have t: "thetaDegFromXY x y = theta_spec x y"
    by (rule thetaDegFromXY_spec)
  have e: "(1 - 0.84 :: real) = 0.16" by simp
  show ?thesis
    using True unfolding wheelColorAt_def wheelColor_spec_def Let_def t e
    by (simp add: not_less RGB.truncate_def)
next
  case False
  then show ?thesis
    by (auto simp: wheelColorAt_def wheelColor_spec_def Let_def)
qed

text \<open>
  Claim C2.  The colour of a point is the colour of the radial profile of section 4.3:
  for a point whose radius lies in \<open>[R_inner, R_color]\<close> it is
  \<open>hslToRgb theta s2 l2\<close> with \<open>theta = degNorm (atan2 (dx, -dy))\<close> in degrees,
  \<open>f = clamp01 ((r - R_inner) / (R_color - R_inner))\<close>, \<open>s = clamp01 (f powr 1.25)\<close>,
  \<open>l = clamp01 (0.92 - 0.42 * f powr 0.85)\<close>, \<open>boost = (f - 0.84) / 0.16\<close> above \<open>0.84\<close> and
  \<open>0\<close> otherwise, \<open>s2 = clamp01 (s + 0.22 * boost)\<close> and \<open>l2 = clamp01 (l - 0.06 * boost)\<close>;
  for a point outside the band there is no colour.
\<close>

theorem wheelColorAt_profile:
  "map_option RGB.truncate (wheelColorAt x y) = wheelColor_spec x y
   \<and> (MODEL_R_inner \<le> radiusFromXY x y \<and> radiusFromXY x y \<le> MODEL_R_color \<longrightarrow>
        wheelColorAt x y \<noteq> None)
   \<and> (radiusFromXY x y < MODEL_R_inner \<or> MODEL_R_color < radiusFromXY x y \<longrightarrow>
        wheelColorAt x y = None)"
  using wheelColorAt_refines [of x y]
  by (auto simp: wheelColorAt_def Let_def)

lemma radius_top: "radiusFromXY 800 96 = 704" "radiusFromXY 800 800 = 0"
  by (simp_all add: radiusFromXY_def MODEL_cx_def MODEL_cy_def OFF_SIZE_def)

lemma model_radii: "MODEL_R_color = 704" "MODEL_R_inner = 288"
  by (simp_all add: MODEL_R_color_def MODEL_R_inner_def OFF_SIZE_def)

lemma theta_top: "theta_spec 800 96 = 0"
  by (simp add: theta_spec_def Math_atan2_def MODEL_cx_def MODEL_cy_def OFF_SIZE_def degNorm_id)

lemma hsl_rim: "hslToRgb 0 1 (11 / 25) = \<lparr>rgb_r = 224, rgb_g = 0, rgb_b = 0\<rparr>"
  by code_simp

lemma wheelColor_spec_rim: "wheelColor_spec 800 96 = Some \<lparr>rgb_r = 224, rgb_g = 0, rgb_b = 0\<rparr>"
proof -
  have f: "clamp01 ((704 - 288) / (704 - 288)) = 1" by (simp add: clamp01_def)
  have s: "clamp01 (1 powr 1.25) = 1" by (simp add: clamp01_def)
  have l: "clamp01 (0.92 - 0.42 * 1 powr 0.85) = 1 / 2" by (simp add: clamp01_def)
  have s2: "clamp01 (1 + 0.22 * ((1 - 0.84) / 0.16)) = 1" by (simp add: clamp01_def)
  have l2: "clamp01 (1 / 2 - 0.06 * ((1 - 0.84) / 0.16)) = 11 / 25" by (simp add: clamp01_def)
  have g: "(1::real) > 0.84" by simp
  show ?thesis
    unfolding wheelColor_spec_def Let_def radius_top model_radii theta_top f s l
    using g by (simp only: if_True s2 l2 hsl_rim) simp
qed

theorem wheelColorAt_profile_witness:
  "MODEL_R_inner \<le> radiusFromXY 800 96 \<and> radiusFromXY 800 96 \<le> MODEL_R_color
   \<and> map_option RGB.truncate (wheelColorAt 800 96) = Some \<lparr>rgb_r = 224, rgb_g = 0, rgb_b = 0\<rparr>
   \<and> radiusFromXY 800 800 < MODEL_R_inner \<and> wheelColorAt 800 800 = None"
  using wheelColorAt_profile [of 800 96] wheelColorAt_profile [of 800 800]
  by (simp add: radius_top model_radii wheelColor_spec_rim)


section \<open>The palette\<close>

lemma someSameHex_iff: "someSameHex prev sw \<longleftrightarrow> toLowerCase (sw_hex sw) \<in> set (map (\<lambda>s. toLowerCase (sw_hex s)) prev)"
  by (auto simp: someSameHex_def list_ex_iff intro: rev_image_eqI)

lemma palette_inv_Nil: "palette_inv []"
  by (simp add: palette_inv_def)

lemma palette_inv_pushSwatch:
  assumes "palette_inv prev"
  shows "palette_inv (pushSwatch sw prev)"
proof (cases "someSameHex prev sw")
  case True
  then show ?thesis using assms by (simp add: pushSwatch_def)
next
  case False
  then have "distinct (map (\<lambda>s. toLowerCase (sw_hex s)) (sw # prev))"
    using assms by (simp add: palette_inv_def someSameHex_iff)
  then have "distinct (map (\<lambda>s. toLowerCase (sw_hex s)) (take 24 (sw # prev)))"
    unfolding take_map [symmetric] by (rule distinct_take)
  then show ?thesis
    using False by (simp add: pushSwatch_def palette_inv_def)
qed

lemma uniqLoop_distinct:
  "distinct (map (\<lambda>s. toLowerCase (sw_hex s)) uniq) \<Longrightarrow>
   distinct (map (\<lambda>s. toLowerCase (sw_hex s)) (uniqLoop uniq merged))"
  by (induction merged arbitrary: uniq) (auto simp: someSameHex_iff)

lemma palette_inv_take_uniqLoop: "palette_inv (take 24 (uniqLoop [] merged))"
proof -
  have "distinct (map (\<lambda>s. toLowerCase (sw_hex s)) (uniqLoop [] merged))"
    by (rule uniqLoop_distinct) simp
  then have "distinct (map (\<lambda>s. toLowerCase (sw_hex s)) (take 24 (uniqLoop [] merged)))"
    unfolding take_map [symmetric] by (rule distinct_take)
  then show ?thesis by (simp add: palette_inv_def)
qed

lemma palette_inv_removeSwatch:
  "palette_inv prev \<Longrightarrow> palette_inv (removeSwatch ident prev)"
  unfolding palette_inv_def removeSwatch_def
  by (auto simp: distinct_map_filter intro: le_trans [OF length_filter_le])

lemma palette_inv_applyOp: "palette_inv prev \<Longrightarrow> palette_inv (applyOp op prev)"
proof (cases op)
  case (Add sample ident)
  assume "palette_inv prev"
  then show ?thesis
    using Add by (cases sample) (simp_all add: addToPalette_def Let_def palette_inv_pushSwatch)
next
  case (AddHarmony offCtx sample harmonyType idents)
  assume "palette_inv prev"
  then show ?thesis
    using AddHarmony
    by (cases sample) (simp_all add: addHarmonyToPalette_def Let_def palette_inv_take_uniqLoop)
next
  case (AddTint tint ident)
  assume "palette_inv prev"
  then show ?thesis
    using AddTint by (simp add: addTintToPalette_def Let_def palette_inv_pushSwatch)
next
  case (Remove ident)
  assume "palette_inv prev"
  then show ?thesis
    using Remove by (simp add: palette_inv_removeSwatch)
next
  case Clear
  then show ?thesis by (simp add: clearPalette_def palette_inv_Nil)
qed

lemma palette_inv_fold: "palette_inv p \<Longrightarrow> palette_inv (fold applyOp ops p)"
  by (induction ops arbitrary: p) (simp_all add: palette_inv_applyOp)

lemma palette_inv_runOps: "palette_inv (runOps ops)"
  unfolding runOps_def by (rule palette_inv_fold [OF palette_inv_Nil])

lemma pushSwatch_dup: "someSameHex prev sw \<Longrightarrow> pushSwatch sw prev = prev"
  by (simp add: pushSwatch_def)

lemma pushSwatch_new: "\<not> someSameHex prev sw \<Longrightarrow> pushSwatch sw prev = sw # take 23 prev"
  by (simp add: pushSwatch_def take_Cons')

lemma pushSwatch_full:
  "\<not> someSameHex prev sw \<Longrightarrow> length prev = 24 \<Longrightarrow> pushSwatch sw prev = sw # butlast prev"
  by (simp add: pushSwatch_new butlast_conv_take)


lemma hexOccurs_someSameHex: "hexOccurs_spec prev (sw_hex sw) = someSameHex prev sw"
  by (simp add: hexOccurs_spec_def someSameHex_def list_ex_iff)

lemma uniqLoop_hd: "uniq \<noteq> [] \<Longrightarrow> hd (uniqLoop uniq merged) = hd uniq"
  by (induction merged arbitrary: uniq) simp_all

lemma uniqLoop_Cons_hd: "hd (uniqLoop [] (s # merged)) = s"
  by (simp add: someSameHex_def uniqLoop_hd)

lemma harmonyAngles_nonempty: "harmonyAngles theta kind \<noteq> []"
  by (cases kind) (simp_all add: Let_def)

lemma harmonySwatches_nonempty: "items \<noteq> [] \<Longrightarrow> harmonySwatches offCtx rr idents k items \<noteq> []"
  by (cases items) (simp_all add: Let_def)

lemma hd_take_24: "hd (take 24 xs) = hd xs"
  by (cases xs) simp_all

lemma addHarmony_hd:
  assumes "s_inside smp"
  shows "hd (addHarmonyToPalette offCtx (Some smp) kind idents prev) =
         hd (harmonySwatches offCtx (s_r smp) idents 0 (harmonyAngles (s_theta smp) kind))"
proof -
  obtain x xs where x: "harmonySwatches offCtx (s_r smp) idents 0 (harmonyAngles (s_theta smp) kind) = x # xs"
    using harmonySwatches_nonempty [OF harmonyAngles_nonempty] by (meson list.exhaust)
  have "hd (uniqLoop [] (x # (xs @ prev))) = x"
    by (rule uniqLoop_Cons_hd)
  then show ?thesis
    using assms by (simp add: addHarmonyToPalette_def Let_def x hd_take_24 del: uniqLoop.simps)
qed

lemma take_23_butlast: "length xs = 24 \<Longrightarrow> take 23 xs = butlast xs"
  by (simp add: butlast_conv_take)

text \<open>
  Claim C7.  A palette reached from the empty one by any run of the five mutations holds at
  most 24 swatches whose hex strings are pairwise distinct without regard to case, and each
  mutation keeps that.  Adding a sample or a tint whose hex string already occurs leaves
  the palette as it is; otherwise the new swatch is put first, before the first 23 of the
  old ones, so that a full palette of 24 loses its last, oldest swatch.  A harmony is put
  first in harmony order, then what was there, the first of each hex string kept, cut to 24.
\<close>

theorem palette_mutations:
  "palette_inv (runOps ops)
   \<and> (palette_inv prev \<longrightarrow> palette_inv (applyOp op prev))
   \<and> (hexOccurs_spec prev (s_hex smp) \<longrightarrow> addToPalette (Some smp) ident prev = prev)
   \<and> (\<not> hexOccurs_spec prev (s_hex smp) \<longrightarrow>
        addToPalette (Some smp) ident prev = sampleSwatch smp ident # take 23 prev)
   \<and> (\<not> hexOccurs_spec prev (s_hex smp) \<and> length prev = 24 \<longrightarrow>
        addToPalette (Some smp) ident prev = sampleSwatch smp ident # butlast prev)
   \<and> (hexOccurs_spec prev (ts_hex tint) \<longrightarrow> addTintToPalette tint ident prev = prev)
   \<and> (\<not> hexOccurs_spec prev (ts_hex tint) \<longrightarrow>
        addTintToPalette tint ident prev = tintSwatch tint ident # take 23 prev)
   \<and> (\<not> hexOccurs_spec prev (ts_hex tint) \<and> length prev = 24 \<longrightarrow>
        addTintToPalette tint ident prev = tintSwatch tint ident # butlast prev)
   \<and> (s_inside smp \<longrightarrow>
        addHarmonyToPalette offCtx (Some smp) kind idents prev =
          take 24 (uniqLoop []
            (harmonySwatches offCtx (s_r smp) idents 0 (harmonyAngles (s_theta smp) kind) @ prev))
        \<and> hd (addHarmonyToPalette offCtx (Some smp) kind idents prev) =
            hd (harmonySwatches offCtx (s_r smp) idents 0 (harmonyAngles (s_theta smp) kind)))"
proof -
  have s: "hexOccurs_spec prev (s_hex smp) = someSameHex prev (sampleSwatch smp ident)"
    using hexOccurs_someSameHex [of prev "sampleSwatch smp ident"]
    by (simp add: sampleSwatch_def)
  have t: "hexOccurs_spec prev (ts_hex tint) = someSameHex prev (tintSwatch tint ident)"
    using hexOccurs_someSameHex [of prev "tintSwatch tint ident"]
    by (simp add: tintSwatch_def)
  have h: "addHarmonyToPalette offCtx (Some smp) kind idents prev =
      take 24 (uniqLoop []
        (harmonySwatches offCtx (s_r smp) idents 0 (harmonyAngles (s_theta smp) kind) @ prev))"
    if "s_inside smp"
    using that by (simp add: addHarmonyToPalette_def Let_def)
  show ?thesis
    unfolding s t
    using palette_inv_runOps [of ops] palette_inv_applyOp [of prev op] h
      addHarmony_hd [of smp offCtx kind idents prev]
    by (simp add: addToPalette_def addTintToPalette_def Let_def pushSwatch_dup pushSwatch_new
        take_23_butlast)
qed


lemma palette24_inv: "palette_inv palette24"
  by code_simp

lemma palette24_length: "length palette24 = 24"
  by (simp add: palette24_def)

lemma palette24_has:
  "hexOccurs_spec palette24 (s_hex blueSample)" "hexOccurs_spec palette24 (ts_hex blueTint)"
  by code_simp+

lemma palette24_lacks:
  "\<not> hexOccurs_spec palette24 (s_hex rimSample)" "\<not> hexOccurs_spec palette24 (ts_hex rimTint)"
  by code_simp+

lemma rimSample_inside: "s_inside rimSample"
  by (simp add: rimSample_def)

theorem palette_mutations_witness:
  "palette_inv palette24 \<and> palette_inv (applyOp (Remove ''7'') palette24)
   \<and> hexOccurs_spec palette24 (s_hex blueSample)
   \<and> addToPalette (Some blueSample) ''id'' palette24 = palette24
   \<and> \<not> hexOccurs_spec palette24 (s_hex rimSample) \<and> length palette24 = 24
   \<and> addToPalette (Some rimSample) ''id'' palette24 = sampleSwatch rimSample ''id'' # butlast palette24
   \<and> hexOccurs_spec palette24 (ts_hex blueTint)
   \<and> addTintToPalette blueTint ''id'' palette24 = palette24
   \<and> \<not> hexOccurs_spec palette24 (ts_hex rimTint)
   \<and> addTintToPalette rimTint ''id'' palette24 = tintSwatch rimTint ''id'' # butlast palette24
   \<and> s_inside rimSample
   \<and> hd (addHarmonyToPalette flatCanvas (Some rimSample) Triadic decDigits palette24) =
       hd (harmonySwatches flatCanvas (s_r rimSample) decDigits 0
             (harmonyAngles (s_theta rimSample) Triadic))"
  using
    palette_mutations [of "[]" palette24 "Remove ''7''" blueSample "''id''" blueTint
      flatCanvas Triadic decDigits]
    palette_mutations [of "[]" palette24 "Remove ''7''" rimSample "''id''" rimTint
      flatCanvas Triadic decDigits]
    palette24_inv palette24_length palette24_has palette24_lacks rimSample_inside
  by blast

section \<open>The ladder of tints and shades\<close>

lemma tintLoop_eq:
  "0 \<le> i \<Longrightarrow>
   tintLoop base half i arr =
     arr @ map (\<lambda>i. let c = mixLinearRGB base white (of_int i / (of_int half + 1))
                   in \<lparr>ts_label = ''Tint '' @ toString10 i, ts_rgb = c,
                       ts_hex = rgbToHex (rgb_r c) (rgb_g c) (rgb_b c)\<rparr>) (rev [1..i])"
proof (induction base half i arr rule: tintLoop.induct)
  case (1 base half i arr)
  show ?case
  proof (cases "i \<ge> 1")
    case True
    then have r: "rev [1..i] = i # rev [1..i - 1]"
      by (simp add: upto_rec2)
    have "0 \<le> i - 1" using True by simp
    then show ?thesis
      using True "1.IH" [OF True refl refl]
      by (subst tintLoop.simps) (simp add: r Let_def)
  next
    case False
    with "1.prems" have "i = 0" by simp
    then show ?thesis
      by (subst tintLoop.simps) simp
  qed
qed

lemma shadeLoop_eq:
  "shadeLoop base half i arr =
     arr @ map (\<lambda>i. let c = mixLinearRGB base black (of_int i / (of_int half + 1))
                   in \<lparr>ts_label = ''Shade '' @ toString10 i, ts_rgb = c,
                       ts_hex = rgbToHex (rgb_r c) (rgb_g c) (rgb_b c)\<rparr>) [i..half]"
proof (induction base half i arr rule: shadeLoop.induct)
  case (1 base half i arr)
  show ?case
  proof (cases "i \<le> half")
    case True
    then have r: "[i..half] = i # [i + 1..half]"
      by (simp add: upto_rec1)
    show ?thesis
      using True "1.IH" [OF True refl refl]
      by (subst shadeLoop.simps) (simp add: r Let_def)
  next
    case False
    then show ?thesis
      by (subst shadeLoop.simps) simp
  qed
qed

lemma half_range:
  fixes n :: real
  shows "1 \<le> \<lfloor>max 3 (min 11 n) / 2\<rfloor>" and "\<lfloor>max 3 (min 11 n) / 2\<rfloor> \<le> 5"
proof -
  have "3 \<le> max 3 (min 11 n)" "max 3 (min 11 n) \<le> 11" by simp_all
  then have "1 \<le> max 3 (min 11 n) / 2" "max 3 (min 11 n) / 2 < 6" by simp_all
  then show "1 \<le> \<lfloor>max 3 (min 11 n) / 2\<rfloor>" and "\<lfloor>max 3 (min 11 n) / 2\<rfloor> \<le> 5"
    by (simp_all add: le_floor_iff floor_less_iff [symmetric])
qed

lemma tints_eq_ladder:
  "tints (Some smp) n =
     ladder_spec mixLinearRGB (s_rgb smp) (s_hex smp) \<lfloor>max 3 (min 11 n) / 2\<rfloor>"
  using half_range [of n]
  by (simp add: tints_def Let_def tintLoop_eq shadeLoop_eq ladder_spec_def)

lemma oddSteps_half: "oddSteps_spec n div 2 = \<lfloor>max 3 (min 11 n) / 2\<rfloor>"
  by (simp add: oddSteps_spec_def)

lemma oddSteps_values: "oddSteps_spec n \<in> {3, 5, 7, 9, 11}"
proof -
  define h where "h = \<lfloor>max 3 (min 11 n) / 2\<rfloor>"
  have "1 \<le> h" "h \<le> 5"
    using half_range [of n] by (simp_all add: h_def)
  then have "h = 1 \<or> h = 2 \<or> h = 3 \<or> h = 4 \<or> h = 5" by presburger
  then show ?thesis
    unfolding oddSteps_spec_def h_def [symmetric] by auto
qed

lemma oddSteps_fixed: "n \<in> {3, 5, 7, 9, 11} \<Longrightarrow> of_int (oddSteps_spec n) = n"
  by (auto simp: oddSteps_spec_def)

lemma oddSteps_near: "\<bar>of_int (oddSteps_spec n) - max 3 (min 11 n)\<bar> \<le> 1"
proof -
  define s where "s = max 3 (min 11 n)"
  define h where "h = \<lfloor>s / 2\<rfloor>"
  have "of_int h \<le> s / 2" "s / 2 < of_int h + 1"
    unfolding h_def by linarith+
  moreover have "of_int (oddSteps_spec n) = 2 * of_int h + (1::real)"
    by (simp add: oddSteps_spec_def h_def s_def)
  ultimately show ?thesis
    unfolding s_def [symmetric] by linarith
qed

lemma length_ladder: "0 \<le> half \<Longrightarrow> length (ladder_spec mix base hex half) = nat (2 * half + 1)"
  by (simp add: ladder_spec_def)

text \<open>
  Claim C3.  For every sample and every requested step count \<open>n\<close>, the ladder is the one of
  section 4.6 for the odd step count in \<open>{3, 5, 7, 9, 11}\<close> that the clamp of \<open>n\<close> to
  \<open>[3, 11]\<close> realises (the count itself when \<open>n\<close> is one of the five, never further than 1
  from the clamped \<open>n\<close>): with \<open>half\<close> the floor of half the clamped count, \<open>half\<close> tints
  mixing the base towards white at \<open>i / (half + 1)\<close> for \<open>i\<close> from \<open>half\<close> down to 1, the base
  unchanged with the sample's hex string, and \<open>half\<close> shades mixing towards black for \<open>i\<close>
  from 1 to \<open>half\<close>, every mix by \<open>mixLinearRGB\<close>; so it has as many steps as that count.
  Without a sample there is no ladder.
\<close>

theorem tints_ladder:
  "tints (Some smp) n = ladder_spec mixLinearRGB (s_rgb smp) (s_hex smp) (oddSteps_spec n div 2)
   \<and> oddSteps_spec n div 2 = \<lfloor>max 3 (min 11 n) / 2\<rfloor>
   \<and> oddSteps_spec n \<in> {3, 5, 7, 9, 11}
   \<and> (n \<in> {3, 5, 7, 9, 11} \<longrightarrow> of_int (oddSteps_spec n) = n)
   \<and> \<bar>of_int (oddSteps_spec n) - max 3 (min 11 n)\<bar> \<le> 1
   \<and> length (tints (Some smp) n) = nat (oddSteps_spec n)
   \<and> tints None n = []"
proof -
  have "length (tints (Some smp) n) = nat (oddSteps_spec n)"
    using half_range [of n]
    by (simp add: tints_eq_ladder length_ladder oddSteps_spec_def)
  moreover have "tints None n = []"
    by (simp add: tints_def)
  ultimately show ?thesis
    using oddSteps_values [of n] oddSteps_fixed [of n] oddSteps_near [of n]
    by (simp add: tints_eq_ladder oddSteps_half)
qed

lemma upto_1_1: "[1..1] = [1::int]"
  by (simp add: upto.simps)

theorem tints_ladder_witness:
  "(7::real) \<in> {3, 5, 7, 9, 11} \<and> oddSteps_spec 7 = 7
   \<and> length (tints (Some rimSample) 7) = 7
   \<and> map ts_label (tints (Some rimSample) 3) = [''Tint 1'', ''Base'', ''Shade 1'']
   \<and> ts_rgb (tints (Some rimSample) 3 ! 1) = \<lparr>rgb_r = 224, rgb_g = 0, rgb_b = 0\<rparr>"
proof -
  have 7: "oddSteps_spec 7 = 7" and 3: "oddSteps_spec 3 div 2 = 1"
    by (simp_all add: oddSteps_spec_def)
  have d: "toString10 1 = ''1''"
    by code_simp
  show ?thesis
    using tints_ladder [of rimSample 7] tints_ladder [of rimSample 3]
    by (simp add: 7 3 ladder_spec_def upto_1_1 Let_def d rimSample_def)
qed

section \<open>The complement of a sample\<close>

lemma radiusFromXY_nonneg: "0 \<le> radiusFromXY x y"
  by (simp add: radiusFromXY_def Let_def)

lemma radius_polar:
  assumes "0 \<le> rr"
  shows "radiusFromXY (pt_x (polarToOff_spec a rr)) (pt_y (polarToOff_spec a rr)) = rr"
proof -
  define t where "t = a * pi / 180"
  have "sin t * rr * (sin t * rr) + - cos t * rr * (- cos t * rr) = rr\<^sup>2 * ((sin t)\<^sup>2 + (cos t)\<^sup>2)"
    unfolding power2_eq_square by (simp only: algebra_simps)
  also have "\<dots> = rr\<^sup>2" by simp
  finally have "sqrt (sin t * rr * (sin t * rr) + - cos t * rr * (- cos t * rr)) = rr"
    using assms by simp
  then show ?thesis
    by (simp add: radiusFromXY_def polarToOff_spec_def t_def)
qed

lemma thetaDegFromXY_range: "0 \<le> thetaDegFromXY x y" "thetaDegFromXY x y < 360"
proof -
  define rad where "rad = (if x - MODEL_cx = 0 \<and> y - MODEL_cy = 0 then pi
                           else Math_atan2 (x - MODEL_cx) (- (y - MODEL_cy)))"
  have "- pi < rad" "rad \<le> pi"
    using Math_atan2_range [of "x - MODEL_cx" "- (y - MODEL_cy)"] by (auto simp: rad_def)
  then have "- 180 < rad * 180 / pi" "rad * 180 / pi \<le> 180"
    by (rule deg_range)+
  then have d: "0 \<le> rad * 180 / pi + 360" by simp
  have t: "thetaDegFromXY x y = jsrem (rad * 180 / pi + 360) 360"
    by (simp add: thetaDegFromXY_def rad_def Let_def)
  show "0 \<le> thetaDegFromXY x y" "thetaDegFromXY x y < 360"
    unfolding t jsrem_nonneg [OF d, of 360, simplified]
    using floor_rem_bounds [of 360 "rad * 180 / pi + 360"] by simp_all
qed

lemma jsrem_degNorm: "0 \<le> d \<Longrightarrow> jsrem d 360 = degNorm d"
  by (simp add: jsrem_nonneg degNorm_floor)

text \<open>
  Claim C10.  In every sample that a probe returns, the complement is present iff the
  sample's \<open>inside\<close> flag holds, which is iff the probed radius lies in
  \<open>[R_inner, R_color]\<close>.  When present, its angle is \<open>(theta + 180) % 360\<close>, the
  degree-normalised opposite hue, and its colour is the pixel of the point at that angle
  and at the sample's own radius.  The scale of the transform is not zero; every resize
  leaves it positive.
\<close>

theorem sampleAtCanvas_complement:
  assumes "sampleAtCanvas offCtx tf pt = Some s" and "tf_scale tf \<noteq> 0"
  shows "(s_comp s \<noteq> None \<longleftrightarrow> s_inside s)
    \<and> (s_inside s \<longleftrightarrow> MODEL_R_inner \<le> s_r s \<and> s_r s \<le> MODEL_R_color)
    \<and> s_r s = radiusFromXY (s_xOff s) (s_yOff s)
    \<and> (\<forall>c. s_comp s = Some c \<longrightarrow>
          comp_theta c = jsrem (s_theta s + 180) 360
          \<and> comp_theta c = degNorm (s_theta s + 180)
          \<and> comp_rgb c =
              readOffRgb offCtx (pixelIndex (pt_x (polarToOff_spec (comp_theta c) (s_r s))))
                (pixelIndex (pt_y (polarToOff_spec (comp_theta c) (s_r s))))
          \<and> radiusFromXY (pt_x (polarToOff_spec (comp_theta c) (s_r s)))
                (pt_y (polarToOff_spec (comp_theta c) (s_r s))) = s_r s)"
proof -
  define ptOff where "ptOff = canvasToOff tf pt"
  define rr where "rr = radiusFromXY (pt_x ptOff) (pt_y ptOff)"
  define theta where "theta = thetaDegFromXY (pt_x ptOff) (pt_y ptOff)"
  from assms(1) have f: "s_r s = rr" "s_theta s = theta" "s_xOff s = pt_x ptOff" "s_yOff s = pt_y ptOff"
    "s_inside s = (rr \<le> MODEL_R_color \<and> rr \<ge> MODEL_R_inner)"
    "s_comp s =
      (if rr \<le> MODEL_R_color \<and> rr \<ge> MODEL_R_inner then
         Some \<lparr>comp_theta = jsrem (theta + 180) 360,
               comp_rgb = readOffRgb offCtx
                 (pixelIndex (pt_x (polarToOff_spec (jsrem (theta + 180) 360) rr)))
                 (pixelIndex (pt_y (polarToOff_spec (jsrem (theta + 180) 360) rr))),
               comp_hex = rgbToHex
                 (rgb_r (readOffRgb offCtx
                   (pixelIndex (pt_x (polarToOff_spec (jsrem (theta + 180) 360) rr)))
                   (pixelIndex (pt_y (polarToOff_spec (jsrem (theta + 180) 360) rr)))))
                 (rgb_g (readOffRgb offCtx
                   (pixelIndex (pt_x (polarToOff_spec (jsrem (theta + 180) 360) rr)))
                   (pixelIndex (pt_y (polarToOff_spec (jsrem (theta + 180) 360) rr)))))
                 (rgb_b (readOffRgb offCtx
                   (pixelIndex (pt_x (polarToOff_spec (jsrem (theta + 180) 360) rr)))
                   (pixelIndex (pt_y (polarToOff_spec (jsrem (theta + 180) 360) rr)))))\<rparr>
       else None)"
    by (auto simp: sampleAtCanvas_def Let_def ptOff_def rr_def theta_def polarToOff_spec_def
        split: if_splits)
  have rr: "0 \<le> rr" by (simp add: rr_def radiusFromXY_nonneg)
  have th: "0 \<le> theta + 180" using thetaDegFromXY_range [of "pt_x ptOff" "pt_y ptOff"]
    by (simp add: theta_def)
  show ?thesis
    unfolding f using radius_polar [OF rr] jsrem_degNorm [OF th]
    by (auto simp: rr_def)
qed


lemma theta_rim: "thetaDegFromXY 800 96 = 0"
  by (simp add: thetaDegFromXY_def Math_atan2_def MODEL_cx_def MODEL_cy_def OFF_SIZE_def
      jsrem_def trunc_def)

lemma pixelIndex_vals: "pixelIndex 800 = 800" "pixelIndex 96 = 96" "pixelIndex 1504 = 1504"
  by (simp_all add: pixelIndex_def OFF_SIZE_def Math_round_def)

lemma hex_rim: "rgbToHex 224 0 0 = ''#e00000''"
  by code_simp

lemma hueName_0: "hueName 0 = ''Red''"
  by code_simp

lemma temp_0: "temperatureLabel 0 = Warm"
  by (simp add: temperatureLabel_def degNorm_id)

lemma jsrem_180: "jsrem 180 360 = 180"
  by (simp add: jsrem_small)

lemma sample_rim:
  "sampleAtCanvas flatCanvas initialTransform \<lparr>pt_x = 800, pt_y = 96\<rparr> = Some rimSample"
proof -
  have off: "canvasToOff initialTransform \<lparr>pt_x = 800, pt_y = 96\<rparr> = \<lparr>pt_x = 800, pt_y = 96\<rparr>"
    by (simp add: canvasToOff_def initialTransform_def)
  have f: "clamp01 1 = 1"
    by (simp add: clamp01_def)
  have rd: "readOffRgb flatCanvas ix iy = \<lparr>rgb_r = 224, rgb_g = 0, rgb_b = 0\<rparr>" for ix iy
    by (simp add: readOffRgb_def flatCanvas_def)
  have ne: "flatCanvas \<noteq> None" by (simp add: flatCanvas_def)
  have cx: "MODEL_cx = 800" "MODEL_cy = 800" "OFF_SIZE = 1600"
    by (simp_all add: MODEL_cx_def MODEL_cy_def OFF_SIZE_def)
  show ?thesis
    unfolding sampleAtCanvas_def Let_def off
    by (simp add: ne radius_top model_radii theta_rim f rd hex_rim hueName_0 temp_0 jsrem_180
        pixelIndex_vals cx rimSample_def)
qed


lemma scale_initial: "tf_scale initialTransform \<noteq> 0"
  by (simp add: initialTransform_def)

lemma polar_180: "polarToOff_spec 180 704 = \<lparr>pt_x = 800, pt_y = 1504\<rparr>"
  by (simp add: polarToOff_spec_def MODEL_cx_def MODEL_cy_def OFF_SIZE_def)

lemma sample_centre:
  "map_option (\<lambda>s. (s_inside s, s_comp s))
     (sampleAtCanvas flatCanvas initialTransform \<lparr>pt_x = 800, pt_y = 800\<rparr>) = Some (False, None)"
proof -
  have off: "canvasToOff initialTransform \<lparr>pt_x = 800, pt_y = 800\<rparr> = \<lparr>pt_x = 800, pt_y = 800\<rparr>"
    by (simp add: canvasToOff_def initialTransform_def)
  have ne: "flatCanvas \<noteq> None" by (simp add: flatCanvas_def)
  show ?thesis
    unfolding sampleAtCanvas_def Let_def off
    by (simp add: ne radius_top model_radii OFF_SIZE_def)
qed

theorem sampleAtCanvas_complement_witness:
  "sampleAtCanvas flatCanvas initialTransform \<lparr>pt_x = 800, pt_y = 96\<rparr> = Some rimSample
   \<and> tf_scale initialTransform \<noteq> 0
   \<and> s_inside rimSample
   \<and> s_comp rimSample =
       Some \<lparr>comp_theta = 180, comp_rgb = \<lparr>rgb_r = 224, rgb_g = 0, rgb_b = 0\<rparr>,
             comp_hex = ''#e00000''\<rparr>
   \<and> jsrem (s_theta rimSample + 180) 360 = 180
   \<and> readOffRgb flatCanvas (pixelIndex (pt_x (polarToOff_spec 180 (s_r rimSample))))
         (pixelIndex (pt_y (polarToOff_spec 180 (s_r rimSample))))
       = \<lparr>rgb_r = 224, rgb_g = 0, rgb_b = 0\<rparr>
   \<and> radiusFromXY (pt_x (polarToOff_spec 180 (s_r rimSample)))
         (pt_y (polarToOff_spec 180 (s_r rimSample))) = s_r rimSample
   \<and> map_option (\<lambda>s. (s_inside s, s_comp s))
         (sampleAtCanvas flatCanvas initialTransform \<lparr>pt_x = 800, pt_y = 800\<rparr>)
       = Some (False, None)"
  using sampleAtCanvas_complement [OF sample_rim scale_initial] sample_rim scale_initial
    sample_centre
  by (simp add: rimSample_def)


section \<open>Degenerate values\<close>


lemma overflowAt_pos: "0 < overflowAt"
  by (simp add: overflowAt_def)






lemma ovf_fits: "fits a \<Longrightarrow> ovf a = Fin a"
  by (simp add: ovf_def fits_def)














lemma overflowAt_small: "overflowAt \<le> (10 ^ 155) ^ 2"
  by (simp add: overflowAt_def)

lemma fits_1: "fits 1"
  by (simp add: fits_def overflowAt_def)

lemma jpow_Fin: "jpow (Fin a) k = ovf (a ^ k)"
  by (cases k) (simp_all add: ovf_fits fits_1)





text \<open>
  A large negative quotient overflows the cube to \<open>-\<infinity>\<close> and the square to \<open>+\<infinity>\<close>, and their
  sum is \<^verbatim>\<open>NaN\<close>: so it is for \<open>x = 1e200\<close> and \<open>y = 0.3\<close>.
\<close>

lemma cct_overflow:
  assumes y: "y \<noteq> 0.1858"
    and fx: "fits (x - 0.332)" and fy: "fits (0.1858 - y)"
    and fn: "fits ((x - 0.332) / (0.1858 - y))"
    and n: "(x - 0.332) / (0.1858 - y) \<le> - (10 ^ 155)"
  shows "cctMcCamyFromXy (Fin x) (Fin y) = NaN"
proof -
  define m where "m = (x - 0.332) / (0.1858 - y)"
  define T :: real where "T = 10 ^ 155"
  have T: "1 \<le> T" by (simp add: T_def)
  have m: "T \<le> - m" using n by (simp only: m_def T_def)
  have big: "overflowAt \<le> T ^ 2"
    unfolding T_def by (rule overflowAt_small)
  have "T ^ 2 \<le> (- m) ^ 2"
    using m T by (intro power_mono) simp_all
  then have m2: "T ^ 2 \<le> m ^ 2"
    by simp
  have "T ^ 3 \<le> (- m) ^ 3"
    using m T by (intro power_mono) simp_all
  then have m3: "m ^ 3 \<le> - (T ^ 3)"
    by simp
  have "T ^ 2 \<le> T ^ 3"
    using T by (simp add: power2_eq_square power3_eq_cube)
  with big m3 have "m ^ 3 \<le> - overflowAt"
    by linarith
  then have p3: "jpow (Fin m) 3 = NegInf"
    using overflowAt_pos by (simp add: jpow_Fin ovf_def)
  have p2: "jpow (Fin m) 2 = PosInf"
    using m2 big by (simp add: jpow_Fin ovf_def)
  have num: "jsub (Fin x) (Fin 0.332) = Fin (x - 0.332)"
    using fx by (simp add: jsub_def ovf_fits)
  have den: "jsub (Fin 0.1858) (Fin y) = Fin (0.1858 - y)"
    using fy by (simp add: jsub_def ovf_fits)
  have "0.1858 - y \<noteq> 0" using y by simp
  then have quot: "jdiv (Fin (x - 0.332)) (Fin (0.1858 - y)) = Fin m"
    using fn [THEN ovf_fits] unfolding m_def by (simp only: jdiv.simps if_False)
  show ?thesis
    unfolding cctMcCamyFromXy_def Let_def num den quot p2 p3
    by simp
qed

lemma cct_overflow_example: "cctMcCamyFromXy (Fin (10 ^ 200)) (Fin 0.3) = NaN"
proof (rule cct_overflow)
  show "fits (10 ^ 200 - 0.332)" by (simp add: fits_def overflowAt_def)
  show "fits (0.1858 - 0.3)" by (simp add: fits_def overflowAt_def)
  show "fits ((10 ^ 200 - 0.332) / (0.1858 - 0.3))" by (simp add: fits_def overflowAt_def)
  show "(10 ^ 200 - 0.332) / (0.1858 - 0.3) \<le> - (10 ^ 155 :: real)" by simp
qed simp

text \<open>On the pole the quotient is an infinity, or \<^verbatim>\<open>NaN\<close> for \<open>0 / 0\<close>.\<close>

lemma cct_pole:
  "cctMcCamyFromXy (Fin 0.5) (Fin 0.1858) = PosInf"
  by (simp add: cctMcCamyFromXy_def jsub_def Let_def ovf_def overflowAt_def eval_nat_numeral)





section \<open>From RGB to HSL and back\<close>

text \<open>
  \<open>hslToRgb\<close> rounds the channels of \<open>hslChannels\<close>; on the result of \<open>rgbToHsl\<close> these are
  the channels of the colour converted, in each of the six sectors of the hue.
\<close>

lemma hslToRgb_channels:
  "hslToRgb h s l =
     (case hslChannels h s l of (x, y, z) \<Rightarrow>
        \<lparr>rgb_r = of_int (min 255 (max 0 (Math_round (x * 255)))),
         rgb_g = of_int (min 255 (max 0 (Math_round (y * 255)))),
         rgb_b = of_int (min 255 (max 0 (Math_round (z * 255))))\<rparr>)"
  unfolding hslToRgb_def hslChannels_def Let_def
  by (simp only: if_distrib [of "case_prod f" for f] prod.case cong: if_cong)

lemma jsrem_shift:
  assumes "0 \<le> a" "0 < b" "of_int k * b \<le> a" "a < (of_int k + 1) * b"
  shows "jsrem a b = a - of_int k * b"
proof -
  have "of_int k \<le> a / b" "a / b < of_int k + 1"
    using assms by (simp_all add: pos_le_divide_eq pos_divide_less_eq)
  then have "\<lfloor>a / b\<rfloor> = k" by (simp add: floor_eq_iff)
  then show ?thesis using assms by (simp add: jsrem_nonneg)
qed

lemma jsrem2_0: "0 \<le> a \<Longrightarrow> a < 2 \<Longrightarrow> jsrem a 2 = a"
  by (rule jsrem_small)

lemma jsrem2_1: "2 \<le> a \<Longrightarrow> a < 4 \<Longrightarrow> jsrem a 2 = a - 2"
  using jsrem_shift [of a 2 1] by simp

lemma jsrem2_2: "4 \<le> a \<Longrightarrow> a < 6 \<Longrightarrow> jsrem a 2 = a - 4"
  using jsrem_shift [of a 2 2] by simp

lemma jsrem6_unit: "- 1 \<le> t \<Longrightarrow> t \<le> 1 \<Longrightarrow> jsrem t 6 = t"
  by (cases "0 \<le> t") (simp_all add: jsrem_small jsrem_small_neg)

lemma hslChannels_eval:
  assumes "(1 - \<bar>2 * l - 1\<bar>) * s = C" and "l - C / 2 = m" and "jsrem h 360 / 60 = hh"
    and "C * (1 - \<bar>jsrem hh 2 - 1\<bar>) = X"
  shows "hslChannels h s l =
     (if 0 \<le> hh \<and> hh < 1 then (C + m, X + m, m)
      else if 1 \<le> hh \<and> hh < 2 then (X + m, C + m, m)
      else if 2 \<le> hh \<and> hh < 3 then (m, C + m, X + m)
      else if 3 \<le> hh \<and> hh < 4 then (m, X + m, C + m)
      else if 4 \<le> hh \<and> hh < 5 then (X + m, m, C + m)
      else (C + m, m, X + m))"
  unfolding hslChannels_def Let_def assms by simp

lemma sector_channels:
  assumes d: "0 < d" and C: "(1 - \<bar>2 * l - 1\<bar>) * s = d" and m: "l - d / 2 = mn"
    and hh: "0 \<le> hh" "hh < 6" and h: "h = 60 * hh"
  shows "hslChannels h s l =
     (if hh < 1 then (d + mn, d * hh + mn, mn)
      else if hh < 2 then (d * (2 - hh) + mn, d + mn, mn)
      else if hh < 3 then (mn, d + mn, d * (hh - 2) + mn)
      else if hh < 4 then (mn, d * (4 - hh) + mn, d + mn)
      else if hh < 5 then (d * (hh - 4) + mn, mn, d + mn)
      else (d + mn, mn, d * (6 - hh) + mn))"
proof -
  have "0 \<le> h" "h < 360" using hh h by simp_all
  then have "jsrem h 360 = h" by (rule jsrem_small)
  then have e: "jsrem h 360 / 60 = hh" using h by simp
  note ev = hslChannels_eval [OF C m e refl]
  consider "hh < 1" | "1 \<le> hh" "hh < 2" | "2 \<le> hh" "hh < 3" | "3 \<le> hh" "hh < 4"
    | "4 \<le> hh" "hh < 5" | "5 \<le> hh"
    by linarith
  then show ?thesis
  proof cases
    case 1
    then have "jsrem hh 2 = hh" using hh by (simp add: jsrem2_0)
    then have "d * (1 - \<bar>jsrem hh 2 - 1\<bar>) = d * hh" using 1 by simp
    then show ?thesis using 1 hh by (simp add: ev)
  next
    case 2
    then have "jsrem hh 2 = hh" by (simp add: jsrem2_0)
    then have "d * (1 - \<bar>jsrem hh 2 - 1\<bar>) = d * (2 - hh)" using 2 by simp
    then show ?thesis using 2 by (simp add: ev)
  next
    case 3
    then have "jsrem hh 2 = hh - 2" by (simp add: jsrem2_1)
    then have "d * (1 - \<bar>jsrem hh 2 - 1\<bar>) = d * (hh - 2)" using 3 by simp
    then show ?thesis using 3 by (simp add: ev)
  next
    case 4
    then have "jsrem hh 2 = hh - 2" by (simp add: jsrem2_1)
    then have "d * (1 - \<bar>jsrem hh 2 - 1\<bar>) = d * (4 - hh)" using 4 by simp
    then show ?thesis using 4 by (simp add: ev)
  next
    case 5
    then have "jsrem hh 2 = hh - 4" by (simp add: jsrem2_2)
    then have "d * (1 - \<bar>jsrem hh 2 - 1\<bar>) = d * (hh - 4)" using 5 by simp
    then show ?thesis using 5 by (simp add: ev)
  next
    case 6
    then have "jsrem hh 2 = hh - 4" using hh by (simp add: jsrem2_2)
    then have "d * (1 - \<bar>jsrem hh 2 - 1\<bar>) = d * (6 - hh)" using 6 by simp
    then show ?thesis using 6 by (simp add: ev)
  qed
qed

lemma hslChannels_rgbToHsl:
  assumes "0 \<le> r0" "r0 \<le> 255" "0 \<le> g0" "g0 \<le> 255" "0 \<le> b0" "b0 \<le> 255"
  shows "hslChannels (hsl_h (rgbToHsl r0 g0 b0)) (hsl_s (rgbToHsl r0 g0 b0))
           (hsl_l (rgbToHsl r0 g0 b0)) = (r0 / 255, g0 / 255, b0 / 255)"
proof -
  define R G B where "R = r0 / 255" and "G = g0 / 255" and "B = b0 / 255"
  define mx mn d where "mx = max R (max G B)" and "mn = min R (min G B)" and "d = mx - mn"
  define l where "l = (mx + mn) / 2"
  have rng: "0 \<le> R" "R \<le> 1" "0 \<le> G" "G \<le> 1" "0 \<le> B" "B \<le> 1"
    using assms by (simp_all add: R_def G_def B_def)
  have mxmn: "R \<le> mx" "G \<le> mx" "B \<le> mx" "mn \<le> R" "mn \<le> G" "mn \<le> B" "0 \<le> mn" "mx \<le> 1"
    using rng by (simp_all add: mx_def mn_def)
  have L: "hsl_l (rgbToHsl r0 g0 b0) = l"
    unfolding rgbToHsl_def Let_def l_def d_def mx_def mn_def R_def G_def B_def
    by (simp only: HSL.select_convs)
  have S: "hsl_s (rgbToHsl r0 g0 b0) = (if d = 0 then 0 else d / (1 - \<bar>2 * l - 1\<bar>))"
    unfolding rgbToHsl_def Let_def l_def d_def mx_def mn_def R_def G_def B_def
    by (simp only: HSL.select_convs)
  have H: "hsl_h (rgbToHsl r0 g0 b0) =
      (if d \<noteq> 0 then
         (let h1 = (if mx = R then jsrem ((G - B) / d) 6
                    else if mx = G then (B - R) / d + 2
                    else (R - G) / d + 4);
              h2 = h1 * 60
          in if h2 < 0 then h2 + 360 else h2)
       else 0)"
    unfolding rgbToHsl_def Let_def l_def d_def mx_def mn_def R_def G_def B_def
    by (simp only: HSL.select_convs)
  show ?thesis
  proof (cases "d = 0")
    case True
    then have eq: "R = mx" "G = mx" "B = mx" "mn = mx"
      using mxmn by (simp_all add: d_def)
    have "hslChannels 0 0 l = (l, l, l)"
      using hslChannels_eval [of l 0 0 l 0 0 0] by (simp add: jsrem_def trunc_def)
    moreover have "l = mx" using eq by (simp add: l_def)
    ultimately show ?thesis
      using True eq by (simp add: L S H R_def [symmetric] G_def [symmetric] B_def [symmetric])
  next
    case False
    then have d: "0 < d" using mxmn by (simp add: d_def)
    have "0 < mx + mn" "mx + mn < 2" using d mxmn by (simp_all add: d_def)
    then have pos: "0 < 1 - \<bar>2 * l - 1\<bar>" by (simp add: l_def abs_less_iff)
    have C: "(1 - \<bar>2 * l - 1\<bar>) * hsl_s (rgbToHsl r0 g0 b0) = d"
      using pos False by (simp add: S)
    have m: "l - d / 2 = mn" by (simp add: l_def d_def field_simps)
    note sec = sector_channels [OF d C [unfolded L [symmetric]] m [unfolded L [symmetric]]]
    have goal: "?thesis = (hslChannels (hsl_h (rgbToHsl r0 g0 b0)) (hsl_s (rgbToHsl r0 g0 b0))
           (hsl_l (rgbToHsl r0 g0 b0)) = (R, G, B))"
      by (simp add: R_def G_def B_def)
    consider (r_hi) "mx = R" "B \<le> G" | (r_lo) "mx = R" "G < B" | (g) "mx \<noteq> R" "mx = G"
      | (b) "mx \<noteq> R" "mx \<noteq> G"
      by linarith
    then show ?thesis
    proof cases
      case r_hi
      define t where "t = (G - B) / d"
      have td: "d * t = G - B" using d by (simp add: t_def)
      have mnB: "mn = B" using r_hi mxmn by (simp add: mn_def mx_def)
      have t: "0 \<le> t" "t \<le> 1" using d r_hi mxmn by (simp_all add: t_def d_def)
      then have "jsrem t 6 = t" by (simp add: jsrem6_unit)
      then have h: "hsl_h (rgbToHsl r0 g0 b0) = 60 * t"
        using False r_hi t by (simp add: H Let_def t_def [symmetric])
      have R: "d + mn = R" using r_hi by (simp add: d_def)
      show ?thesis
      proof (cases "t < 1")
        case True
        then show ?thesis
          unfolding goal using sec [of t, OF _ _ h] t R by (simp add: td mnB)
      next
        case False
        then have "t = 1" using t by simp
        then have "G = R" using td R mnB by simp
        then show ?thesis
          unfolding goal using sec [of t, OF _ _ h] \<open>t = 1\<close> R by (simp add: mnB)
      qed
    next
      case r_lo
      define t where "t = (G - B) / d"
      have td: "d * t = G - B" using d by (simp add: t_def)
      have mnG: "mn = G" using r_lo mxmn by (simp add: mn_def mx_def)
      have t: "- 1 \<le> t" "t < 0" using d r_lo mxmn by (simp_all add: t_def d_def field_simps)
      then have "jsrem t 6 = t" by (simp add: jsrem6_unit)
      then have h: "hsl_h (rgbToHsl r0 g0 b0) = 60 * (6 + t)"
        using False r_lo t by (simp add: H Let_def t_def [symmetric])
      have R: "d + mn = R" using r_lo by (simp add: d_def)
      have "d * (6 - (6 + t)) + mn = B" using td mnG by (simp add: algebra_simps)
      then show ?thesis
        unfolding goal using sec [of "6 + t", OF _ _ h] t R by (simp add: mnG)
    next
      case g
      define t where "t = (B - R) / d"
      have td: "d * t = B - R" using d by (simp add: t_def)
      have t: "- 1 \<le> t" "t \<le> 1" using d g mxmn by (simp_all add: t_def d_def field_simps)
      have h: "hsl_h (rgbToHsl r0 g0 b0) = 60 * (2 + t)"
        using False g t by (simp add: H Let_def t_def [symmetric])
      have Gm: "d + mn = G" using g by (simp add: d_def)
      consider "t < 0" | "0 \<le> t" "t < 1" | "t = 1" using t by linarith
      then show ?thesis
      proof cases
        case 1
        then have "B < R" using td d by (simp add: t_def field_simps)
        then have mnB: "mn = B" using g mxmn by (simp add: mn_def mx_def)
        have "d * (2 - (2 + t)) + mn = R" using td mnB by (simp add: algebra_simps)
        then show ?thesis
          unfolding goal using sec [of "2 + t", OF _ _ h] t 1 Gm by (simp add: mnB)
      next
        case 2
        then have "R \<le> B" using td d by (simp add: t_def field_simps)
        then have mnR: "mn = R" using g mxmn by (simp add: mn_def mx_def)
        have "d * (2 + t - 2) + mn = B" using td mnR by (simp add: algebra_simps)
        then show ?thesis
          unfolding goal using sec [of "2 + t", OF _ _ h] t 2 Gm by (simp add: mnR)
      next
        case 3
        then have "B - R = d" using td by simp
        then have "mn = R" "B = G" using g mxmn by (simp_all add: d_def)
        then show ?thesis
          unfolding goal using sec [of "2 + t", OF _ _ h] 3 Gm by simp
      qed
    next
      case b
      then have mxB: "mx = B" using mxmn by (simp add: mx_def max_def split: if_splits)
      have lt: "R < B" "G < B" using b mxB mxmn by simp_all
      define t where "t = (R - G) / d"
      have td: "d * t = R - G" using d by (simp add: t_def)
      have h: "hsl_h (rgbToHsl r0 g0 b0) = 60 * (4 + t)"
      proof -
        have "- 1 \<le> t" using d lt mxmn mxB by (simp add: t_def d_def field_simps)
        then show ?thesis using False b by (simp add: H Let_def t_def [symmetric])
      qed
      have Bm: "d + mn = B" using mxB by (simp add: d_def)
      show ?thesis
      proof (cases "t < 0")
        case True
        then have "R < G" using td d by (simp add: t_def field_simps)
        then have mnR: "mn = R" using lt by (simp add: mn_def)
        have "- 1 < t" using d lt mnR mxB by (simp add: t_def d_def field_simps)
        moreover have "d * (4 - (4 + t)) + mn = G" using td mnR by (simp add: algebra_simps)
        ultimately show ?thesis
          unfolding goal using sec [of "4 + t", OF _ _ h] True Bm by (simp add: mnR)
      next
        case False
        then have "G \<le> R" using td d by (simp add: t_def field_simps)
        then have mnG: "mn = G" using lt by (simp add: mn_def)
        have "t < 1" using d lt mnG mxB by (simp add: t_def d_def field_simps)
        moreover have "d * (4 + t - 4) + mn = R" using td mnG by (simp add: algebra_simps)
        ultimately show ?thesis
          unfolding goal using sec [of "4 + t", OF _ _ h] False Bm by (simp add: mnG)
      qed
    qed
  qed
qed

lemma is_byte_round: "is_byte x \<Longrightarrow> of_int (min 255 (max 0 (Math_round (x / 255 * 255)))) = x"
proof -
  assume b: "is_byte x"
  then obtain k where k: "x = of_int k" "0 \<le> k" "k \<le> 255"
    unfolding is_byte_def by (metis floor_mono floor_numeral floor_zero)
  then show ?thesis by (simp add: Math_round_of_int)
qed

lemma hslToRgb_rgbToHsl_roundtrip:
  assumes "byteRGB c"
  shows "hslToRgb (hsl_h (rgbToHsl (rgb_r c) (rgb_g c) (rgb_b c)))
           (hsl_s (rgbToHsl (rgb_r c) (rgb_g c) (rgb_b c)))
           (hsl_l (rgbToHsl (rgb_r c) (rgb_g c) (rgb_b c))) = c"
proof -
  have b: "is_byte (rgb_r c)" "is_byte (rgb_g c)" "is_byte (rgb_b c)"
    using assms by (simp_all add: byteRGB_def)
  then have "0 \<le> rgb_r c" "rgb_r c \<le> 255" "0 \<le> rgb_g c" "rgb_g c \<le> 255"
    "0 \<le> rgb_b c" "rgb_b c \<le> 255"
    by (simp_all add: is_byte_def)
  then have "hslChannels (hsl_h (rgbToHsl (rgb_r c) (rgb_g c) (rgb_b c)))
           (hsl_s (rgbToHsl (rgb_r c) (rgb_g c) (rgb_b c)))
           (hsl_l (rgbToHsl (rgb_r c) (rgb_g c) (rgb_b c))) =
         (rgb_r c / 255, rgb_g c / 255, rgb_b c / 255)"
    by (rule hslChannels_rgbToHsl)
  then show ?thesis
    using b by (simp only: hslToRgb_channels prod.case is_byte_round) simp
qed


text \<open>
  Claim C1, as the code has it.  Converting a colour with integer channels in \<open>[0, 255]\<close>
  to HSL with \<open>rgbToHsl\<close> and back with \<open>hslToRgb\<close> gives the colour itself, so each
  channel is reproduced, within one unit in particular.  For HSV the library has the
  conversion from RGB only, so there is no round trip through HSV.
\<close>

theorem rgb_hsl_round_trip:
  assumes "byteRGB c"
  shows "roundTrip HSL_space c = Some c \<and> reproduces_spec HSL_space c
    \<and> roundTrip HSV_space c = None"
  using hslToRgb_rgbToHsl_roundtrip [OF assms]
  by (simp add: roundTrip_def reproduces_spec_def within1_def Let_def)

theorem rgb_hsl_round_trip_witness:
  "byteRGB \<lparr>rgb_r = 10, rgb_g = 200, rgb_b = 30\<rparr>
   \<and> roundTrip HSL_space \<lparr>rgb_r = 10, rgb_g = 200, rgb_b = 30\<rparr>
       = Some \<lparr>rgb_r = 10, rgb_g = 200, rgb_b = 30\<rparr>
   \<and> reproduces_spec HSL_space \<lparr>rgb_r = 10, rgb_g = 200, rgb_b = 30\<rparr>"
proof -
  have b: "byteRGB \<lparr>rgb_r = 10, rgb_g = 200, rgb_b = 30\<rparr>"
    by (simp add: byteRGB_def is_byte_def)
  show ?thesis
    using b rgb_hsl_round_trip [OF b] by simp
qed

text \<open>
  The round trip through HSV that the specification names does not exist: red, which
  \<open>rgbToHsv\<close> takes to the hue 0 at full saturation and value, has no way back.
\<close>

theorem rgb_hsv_round_trip_counterexample:
  "byteRGB \<lparr>rgb_r = 255, rgb_g = 0, rgb_b = 0\<rparr>
   \<and> toComponents HSV_space \<lparr>rgb_r = 255, rgb_g = 0, rgb_b = 0\<rparr> = (0, 1, 1)
   \<and> \<not> reproduces_spec HSV_space \<lparr>rgb_r = 255, rgb_g = 0, rgb_b = 0\<rparr>"
proof -
  have "rgbToHsv 255 0 0 = \<lparr>hsv_h = 0, hsv_s = 1, hsv_v = 1\<rparr>"
    by code_simp
  then show ?thesis
    by (simp add: byteRGB_def is_byte_def reproduces_spec_def roundTrip_def)
qed

end
